theory Spec2Isabelle
  imports Main "HOL-Library.Word"
begin

unbundle bit_operations_syntax

section \<open>Data model of dlls/x11drv/window.c\<close>

text \<open>
  The C types of the driver: \<open>DWORD\<close> style masks and \<open>LONG\<close> rectangle
  coordinates are 32-bit words (coordinates are read as two's complement, with
  \<open>\<le>s\<close> and \<open><s\<close>); window handles, X resource ids and GDI handles are
  32-bit words that the code only compares with each other and with 0.
\<close>

type_synonym DWORD = "32 word"
type_synonym LONG = "32 word"
type_synonym HWND = "32 word"
type_synonym HANDLE = "32 word"
type_synonym XID = "32 word"

record RECT =
  r_left :: LONG
  r_top :: LONG
  r_right :: LONG
  r_bottom :: LONG

text \<open>\<open>struct x11drv_win_data\<close>, the per-window driver data.\<close>

record x11drv_win_data =
  whole_window :: XID
  client_window :: XID
  icon_window :: XID
  whole_rect :: RECT
  client_rect :: RECT
  hWMIconBitmap :: HANDLE
  hWMIconMask :: HANDLE

text \<open>The fields of \<open>WND\<close> that window.c reads or writes (its driver data is kept beside it).\<close>

record WND =
  hwndSelf :: HWND
  parent :: HWND
  owner :: HWND
  dwStyle :: DWORD
  dwExStyle :: DWORD
  clsStyle :: DWORD
  flags :: DWORD
  rectWindow :: RECT
  rectClient :: RECT

subsection \<open>Constants of the platform headers\<close>

text \<open>
  Modelled from the spec: the style bits it names (\<open>WS_CHILD\<close>, \<open>WS_CAPTION\<close>,
  \<open>WS_THICKFRAME\<close>, the tool-window, dialog-modal-frame, tray and managed extended
  styles) are declared in winuser.h and the X masks in X.h and Xutil.h, none of which is
  among the source files; the values are those of these headers.
\<close>

definition WS_POPUP :: DWORD where "WS_POPUP = 0x80000000"
definition WS_CHILD :: DWORD where "WS_CHILD = 0x40000000"
definition WS_MINIMIZE :: DWORD where "WS_MINIMIZE = 0x20000000"
definition WS_VISIBLE :: DWORD where "WS_VISIBLE = 0x10000000"
definition WS_MAXIMIZE :: DWORD where "WS_MAXIMIZE = 0x01000000"
definition WS_CAPTION :: DWORD where "WS_CAPTION = 0x00C00000"
definition WS_BORDER :: DWORD where "WS_BORDER = 0x00800000"
definition WS_DLGFRAME :: DWORD where "WS_DLGFRAME = 0x00400000"
definition WS_VSCROLL :: DWORD where "WS_VSCROLL = 0x00200000"
definition WS_HSCROLL :: DWORD where "WS_HSCROLL = 0x00100000"
definition WS_SYSMENU :: DWORD where "WS_SYSMENU = 0x00080000"
definition WS_THICKFRAME :: DWORD where "WS_THICKFRAME = 0x00040000"

definition WS_EX_DLGMODALFRAME :: DWORD where "WS_EX_DLGMODALFRAME = 0x00000001"
definition WS_EX_TOOLWINDOW :: DWORD where "WS_EX_TOOLWINDOW = 0x00000080"
definition WS_EX_TRAYWINDOW :: DWORD where "WS_EX_TRAYWINDOW = 0x80000000"
definition WS_EX_MANAGED :: DWORD where "WS_EX_MANAGED = 0x40000000"

definition CS_VREDRAW :: DWORD where "CS_VREDRAW = 0x0001"
definition CS_HREDRAW :: DWORD where "CS_HREDRAW = 0x0002"
definition CS_SAVEBITS :: DWORD where "CS_SAVEBITS = 0x0800"

definition WIN_NEED_SIZE :: DWORD where "WIN_NEED_SIZE = 0x0040"

text \<open>Value masks of \<open>XConfigureWindow\<close> and the stacking modes (X.h).\<close>

definition CWX :: "32 word" where "CWX = 0x01"
definition CWY :: "32 word" where "CWY = 0x02"
definition CWWidth :: "32 word" where "CWWidth = 0x04"
definition CWHeight :: "32 word" where "CWHeight = 0x08"
definition CWSibling :: "32 word" where "CWSibling = 0x20"
definition CWStackMode :: "32 word" where "CWStackMode = 0x40"

definition Above :: "32 word" where "Above = 0"
definition Below :: "32 word" where "Below = 1"

text \<open>Value masks of \<open>XCreateWindow\<close> and \<open>XChangeWindowAttributes\<close>, gravities, event masks (X.h).\<close>

definition CWBitGravity :: "32 word" where "CWBitGravity = 0x0010"
definition CWWinGravity :: "32 word" where "CWWinGravity = 0x0020"
definition CWBackingStore :: "32 word" where "CWBackingStore = 0x0040"
definition CWOverrideRedirect :: "32 word" where "CWOverrideRedirect = 0x0200"
definition CWSaveUnder :: "32 word" where "CWSaveUnder = 0x0400"
definition CWEventMask :: "32 word" where "CWEventMask = 0x0800"
definition CWColormap :: "32 word" where "CWColormap = 0x2000"
definition CWCursor :: "32 word" where "CWCursor = 0x4000"

definition ForgetGravity :: "32 word" where "ForgetGravity = 0"
definition NorthWestGravity :: "32 word" where "NorthWestGravity = 1"
definition StaticGravity :: "32 word" where "StaticGravity = 10"
definition NotUseful :: "32 word" where "NotUseful = 0"

definition KeyPressMask :: "32 word" where "KeyPressMask = 0x000001"
definition KeyReleaseMask :: "32 word" where "KeyReleaseMask = 0x000002"
definition ButtonPressMask :: "32 word" where "ButtonPressMask = 0x000004"
definition ButtonReleaseMask :: "32 word" where "ButtonReleaseMask = 0x000008"
definition PointerMotionMask :: "32 word" where "PointerMotionMask = 0x000040"
definition KeymapStateMask :: "32 word" where "KeymapStateMask = 0x004000"
definition ExposureMask :: "32 word" where "ExposureMask = 0x008000"
definition StructureNotifyMask :: "32 word" where "StructureNotifyMask = 0x020000"
definition FocusChangeMask :: "32 word" where "FocusChangeMask = 0x200000"

text \<open>Flags of \<open>XSizeHints\<close> and \<open>XWMHints\<close>, window states, \<open>XA_WINDOW\<close> (Xutil.h, Xatom.h).\<close>

definition PPosition :: "32 word" where "PPosition = 0x0004"
definition PMinSize :: "32 word" where "PMinSize = 0x0010"
definition PMaxSize :: "32 word" where "PMaxSize = 0x0020"
definition PWinGravity :: "32 word" where "PWinGravity = 0x0200"

definition InputHint :: "32 word" where "InputHint = 0x01"
definition StateHint :: "32 word" where "StateHint = 0x02"
definition IconPixmapHint :: "32 word" where "IconPixmapHint = 0x04"
definition IconWindowHint :: "32 word" where "IconWindowHint = 0x08"
definition IconMaskHint :: "32 word" where "IconMaskHint = 0x20"
definition WindowGroupHint :: "32 word" where "WindowGroupHint = 0x40"

definition NormalState :: "32 word" where "NormalState = 1"
definition IconicState :: "32 word" where "IconicState = 3"
definition XA_WINDOW :: XID where "XA_WINDOW = 33"

text \<open>Motif hints (mwm.h).\<close>

definition MWM_HINTS_FUNCTIONS :: "32 word" where "MWM_HINTS_FUNCTIONS = 0x01"
definition MWM_HINTS_DECORATIONS :: "32 word" where "MWM_HINTS_DECORATIONS = 0x02"
definition MWM_FUNC_RESIZE :: "32 word" where "MWM_FUNC_RESIZE = 0x02"
definition MWM_FUNC_MOVE :: "32 word" where "MWM_FUNC_MOVE = 0x04"
definition MWM_FUNC_MINIMIZE :: "32 word" where "MWM_FUNC_MINIMIZE = 0x08"
definition MWM_FUNC_MAXIMIZE :: "32 word" where "MWM_FUNC_MAXIMIZE = 0x10"
definition MWM_FUNC_CLOSE :: "32 word" where "MWM_FUNC_CLOSE = 0x20"
definition MWM_DECOR_BORDER :: "32 word" where "MWM_DECOR_BORDER = 0x02"
definition MWM_DECOR_RESIZEH :: "32 word" where "MWM_DECOR_RESIZEH = 0x04"
definition MWM_DECOR_TITLE :: "32 word" where "MWM_DECOR_TITLE = 0x08"
definition MWM_DECOR_MENU :: "32 word" where "MWM_DECOR_MENU = 0x10"
definition MWM_DECOR_MINIMIZE :: "32 word" where "MWM_DECOR_MINIMIZE = 0x20"
definition MWM_DECOR_MAXIMIZE :: "32 word" where "MWM_DECOR_MAXIMIZE = 0x40"

subsection \<open>Rectangle helpers of user32\<close>

text \<open>
  Modelled from the spec: \<open>IsRectEmpty\<close>, \<open>OffsetRect\<close> and \<open>SetRect\<close> are
  user32 functions outside the source file. The spec calls a rectangle empty when it has
  zero or negative width or height; \<open>OffsetRect\<close> moves all four edges and
  \<open>SetRect\<close> stores them.
\<close>

definition IsRectEmpty :: "RECT \<Rightarrow> bool" where
  "IsRectEmpty rc = (r_right rc \<le>s r_left rc \<or> r_bottom rc \<le>s r_top rc)"

definition OffsetRect :: "RECT \<Rightarrow> LONG \<Rightarrow> LONG \<Rightarrow> RECT" where
  "OffsetRect rc dx dy =
     \<lparr>r_left = r_left rc + dx, r_top = r_top rc + dy,
      r_right = r_right rc + dx, r_bottom = r_bottom rc + dy\<rparr>"

definition SetRect :: "LONG \<Rightarrow> LONG \<Rightarrow> LONG \<Rightarrow> LONG \<Rightarrow> RECT" where
  "SetRect l t r b = \<lparr>r_left = l, r_top = t, r_right = r, r_bottom = b\<rparr>"

text \<open>Adding margins to a rectangle, edge by edge.\<close>

definition rect_add :: "RECT \<Rightarrow> RECT \<Rightarrow> RECT" where
  "rect_add a b =
     \<lparr>r_left = r_left a + r_left b, r_top = r_top a + r_top b,
      r_right = r_right a + r_right b, r_bottom = r_bottom a + r_bottom b\<rparr>"

subsection \<open>Structures passed to Xlib\<close>

text \<open>
  \<open>XWindowChanges\<close> is an uninitialised local of its callers: a field is \<open>None\<close>
  until the code stores into it.
\<close>

record XWindowChanges =
  ch_x :: "LONG option"
  ch_y :: "LONG option"
  ch_width :: "LONG option"
  ch_height :: "LONG option"
  ch_sibling :: "XID option"
  ch_stack_mode :: "32 word option"

definition no_changes :: XWindowChanges where
  "no_changes = \<lparr>ch_x = None, ch_y = None, ch_width = None, ch_height = None,
                  ch_sibling = None, ch_stack_mode = None\<rparr>"

text \<open>
  \<open>XSetWindowAttributes\<close> is an uninitialised local of its users (a field is
  \<open>None\<close> until stored). \<open>XSizeHints\<close> and \<open>XWMHints\<close> come zeroed from
  Xlib's allocators. Of \<open>MwmHints\<close> the code stores three fields.
\<close>

record XSetWindowAttributes =
  attr_override_redirect :: "bool option"
  attr_colormap :: "XID option"
  attr_save_under :: "bool option"
  attr_cursor :: "XID option"
  attr_event_mask :: "32 word option"
  attr_bit_gravity :: "32 word option"
  attr_win_gravity :: "32 word option"
  attr_backing_store :: "32 word option"

definition no_attributes :: XSetWindowAttributes where
  "no_attributes =
     \<lparr>attr_override_redirect = None, attr_colormap = None, attr_save_under = None,
      attr_cursor = None, attr_event_mask = None, attr_bit_gravity = None,
      attr_win_gravity = None, attr_backing_store = None\<rparr>"

record XSizeHints =
  sh_flags :: "32 word"
  sh_x :: LONG
  sh_y :: LONG
  sh_min_width :: LONG
  sh_min_height :: LONG
  sh_max_width :: LONG
  sh_max_height :: LONG
  sh_win_gravity :: "32 word"

definition XAllocSizeHints_zero :: XSizeHints where
  "XAllocSizeHints_zero =
     \<lparr>sh_flags = 0, sh_x = 0, sh_y = 0, sh_min_width = 0, sh_min_height = 0,
      sh_max_width = 0, sh_max_height = 0, sh_win_gravity = 0\<rparr>"

record XWMHints =
  wmh_flags :: "32 word"
  wmh_input :: bool
  wmh_initial_state :: "32 word"
  wmh_icon_pixmap :: XID
  wmh_icon_window :: XID
  wmh_icon_mask :: XID
  wmh_window_group :: XID

definition XAllocWMHints_zero :: XWMHints where
  "XAllocWMHints_zero =
     \<lparr>wmh_flags = 0, wmh_input = False, wmh_initial_state = 0, wmh_icon_pixmap = 0,
      wmh_icon_window = 0, wmh_icon_mask = 0, wmh_window_group = 0\<rparr>"

record MwmHints =
  mwm_flags :: "32 word"
  mwm_functions :: "32 word"
  mwm_decorations :: "32 word"

subsection \<open>Native calls\<close>

text \<open>
  The calls the driver issues to Xlib, GDI, the heap and the window properties, logged in
  the order it issues them. The display lock taken around them is not modelled.
\<close>

datatype xcall =
    XSync
  | TSXSync
  | XCreateWindow XID LONG LONG LONG LONG "32 word" XSetWindowAttributes
  | XSaveContext XID HWND
  | XDeleteContext XID
  | XDestroyWindow XID
  | XMapWindow XID
  | XUnmapWindow XID
  | XConfigureWindow XID "32 word" XWindowChanges
  | XReconfigureWMWindow XID "32 word" XWindowChanges
  | XChangeWindowAttributes XID "32 word" XSetWindowAttributes
  | XFreeCursor XID
  | XSetWMProtocols XID "XID list"
  | XSetClassHint XID string string
  | XSetTransientForHint XID XID
  | XSetWMNormalHints XID XSizeHints
  | XChangeProperty XID XID XID "32 word list"
  | XChangeProperty_mwm XID XID MwmHints
  | XSetWMHints XID XWMHints
  | X11DRV_CreateBitmap HANDLE
  | InvertRect_bitmap HANDLE
  | DeleteObject HANDLE
  | SetPropA HWND string HANDLE
  | RemovePropA HWND string
  | HeapFree_data
  | XInternAtoms
  | X11DRV_create_desktop_thread
  | HOOK_CallHooks_CBT HWND HWND
  | WINPOS_GetMinMaxInfo_call HWND
  | SendMessage HWND string
  | WIN_LinkWindow HWND HWND bool
  | WIN_UnlinkWindow HWND
  | WINPOS_MinMaximize_call HWND bool
  | SetWindowPos_call HWND

subsection \<open>The environment of the driver\<close>

text \<open>
  Other windows as \<open>WIN_GetPtr\<close> finds them: none, a window of another process, or
  a window of this process with its driver data.
\<close>

datatype wnd_ptr = WND_NULL | WND_OTHER_PROCESS | WND_LOCAL WND x11drv_win_data

text \<open>
  Globals of the driver and results of the collaborators that window.c calls but does
  not define. \<open>AdjustWindowRectEx\<close> is the non-client metrics calculator;
  \<open>XCreateWindow_result\<close> is the id the server returns for a parent and a geometry
  (0 when the creation fails); \<open>siblings\<close> is the logical sibling chain, first window
  on top.
\<close>

record env =
  managed_mode :: bool
  root_is_default :: bool
  root_window :: XID
  desktop_window :: HWND
  AdjustWindowRectEx :: "RECT \<Rightarrow> DWORD \<Rightarrow> bool \<Rightarrow> DWORD \<Rightarrow> RECT"
  WIN_GetPtr :: "HWND \<Rightarrow> wnd_ptr"
  GetPropA :: "HWND \<Rightarrow> string \<Rightarrow> HANDLE"
  siblings :: "HWND list"
  GetWindowLongW_style :: "HWND \<Rightarrow> DWORD"
  XCreateWindow_result :: "XID \<Rightarrow> LONG \<Rightarrow> LONG \<Rightarrow> LONG \<Rightarrow> LONG \<Rightarrow> XID"
  palette_colormap :: XID
  X11DRV_GetCursor :: XID
  SM_CXICON :: LONG
  SM_CYICON :: LONG
  wmDeleteWindow :: XID
  wmTakeFocus :: XID
  mwmHints :: XID
  kwmDockWindow :: XID
  kde_net_wm_system_tray_window_for :: XID
  XAllocClassHint_ok :: bool
  XAllocSizeHints_ok :: bool
  XAllocWMHints_ok :: bool
  GetClassLongA_HICON :: "HWND \<Rightarrow> HANDLE"
  GetIconInfo :: "HANDLE \<Rightarrow> HANDLE \<times> HANDLE"
  X11DRV_BITMAP_Pixmap :: "HANDLE \<Rightarrow> XID"

text \<open>
  The window a function works on: \<open>*win\<close>, \<open>*win->pDriverData\<close> (which the
  static functions dereference unchecked) and the calls issued so far.
\<close>

record xstate =
  wnd :: WND
  drv :: x11drv_win_data
  xlog :: "xcall list"

definition issue :: "xcall list \<Rightarrow> xstate \<Rightarrow> xstate" where
  "issue cs s = s\<lparr>xlog := xlog s @ cs\<rparr>"

definition whole_window_atom :: string where "whole_window_atom = ''__wine_x11_whole_window''"
definition client_window_atom :: string where "client_window_atom = ''__wine_x11_client_window''"
definition icon_window_atom :: string where "icon_window_atom = ''__wine_x11_icon_window''"

section \<open>Decoration policy\<close>

text \<open>\<open>is_window_managed\<close>: the checks in the order of the source.\<close>

definition is_window_managed :: "env \<Rightarrow> WND \<Rightarrow> bool" where
  "is_window_managed e win =
     (if \<not> managed_mode e then False
      else if dwExStyle win AND WS_EX_TRAYWINDOW \<noteq> 0 then True
      else if dwStyle win AND WS_CHILD \<noteq> 0 then False
      else if dwExStyle win AND WS_EX_TOOLWINDOW \<noteq> 0 then False
      else if dwStyle win AND WS_CAPTION = WS_CAPTION then True
      else if dwStyle win AND WS_THICKFRAME \<noteq> 0 then True
      else False)"

text \<open>\<open>is_window_top_level\<close>: the root window is the default one and the parent is the desktop.\<close>

definition is_window_top_level :: "env \<Rightarrow> WND \<Rightarrow> bool" where
  "is_window_top_level e win = (root_is_default e \<and> parent win = desktop_window e)"

section \<open>Geometry\<close>

text \<open>
  \<open>get_window_changes\<close> returns the mask and the structure it filled. A computed
  width or height is replaced by 1 when it is zero (\<open>if (!(changes->width = ...))\<close>).
\<close>

definition get_window_changes :: "XWindowChanges \<Rightarrow> RECT \<Rightarrow> RECT \<Rightarrow> 32 word \<times> XWindowChanges" where
  "get_window_changes changes old new =
     (let (mask1, c1) =
            (if r_right old - r_left old \<noteq> r_right new - r_left new
             then (CWWidth,
                   changes\<lparr>ch_width := Some (if r_right new - r_left new = 0 then 1
                                              else r_right new - r_left new)\<rparr>)
             else (0, changes));
          (mask2, c2) =
            (if r_bottom old - r_top old \<noteq> r_bottom new - r_top new
             then (mask1 OR CWHeight,
                   c1\<lparr>ch_height := Some (if r_bottom new - r_top new = 0 then 1
                                          else r_bottom new - r_top new)\<rparr>)
             else (mask1, c1));
          (mask3, c3) =
            (if r_left old \<noteq> r_left new
             then (mask2 OR CWX, c2\<lparr>ch_x := Some (r_left new)\<rparr>)
             else (mask2, c2));
          (mask4, c4) =
            (if r_top old \<noteq> r_top new
             then (mask3 OR CWY, c3\<lparr>ch_y := Some (r_top new)\<rparr>)
             else (mask3, c3))
      in (mask4, c4))"

text \<open>
  \<open>X11DRV_window_to_X_rect\<close>: nothing for an unmanaged window or an empty rectangle;
  otherwise the margins that \<open>AdjustWindowRectEx\<close> gives a zero rectangle are
  subtracted and a degenerate result is widened to one unit.
\<close>

definition zero_rect :: RECT where
  "zero_rect = \<lparr>r_left = 0, r_top = 0, r_right = 0, r_bottom = 0\<rparr>"

definition fix_degenerate :: "RECT \<Rightarrow> RECT" where
  "fix_degenerate rc =
     (let r1 = (if r_bottom rc \<le>s r_top rc then rc\<lparr>r_bottom := r_top rc + 1\<rparr> else rc)
      in if r_right r1 \<le>s r_left r1 then r1\<lparr>r_right := r_left r1 + 1\<rparr> else r1)"

definition window_to_X_adjusted :: "env \<Rightarrow> WND \<Rightarrow> RECT \<Rightarrow> RECT" where
  "window_to_X_adjusted e win rect =
     (let rc = AdjustWindowRectEx e zero_rect
                 (dwStyle win AND NOT (WS_HSCROLL OR WS_VSCROLL)) False (dwExStyle win)
      in \<lparr>r_left = r_left rect - r_left rc, r_top = r_top rect - r_top rc,
          r_right = r_right rect - r_right rc, r_bottom = r_bottom rect - r_bottom rc\<rparr>)"

definition X11DRV_window_to_X_rect :: "env \<Rightarrow> WND \<Rightarrow> RECT \<Rightarrow> RECT" where
  "X11DRV_window_to_X_rect e win rect =
     (if dwExStyle win AND WS_EX_MANAGED = 0 then rect
      else if IsRectEmpty rect then rect
      else fix_degenerate (window_to_X_adjusted e win rect))"

definition X_to_window_adjusted :: "env \<Rightarrow> WND \<Rightarrow> RECT \<Rightarrow> RECT" where
  "X_to_window_adjusted e win rect =
     AdjustWindowRectEx e rect
       (dwStyle win AND NOT (WS_HSCROLL OR WS_VSCROLL)) False (dwExStyle win)"

definition X11DRV_X_to_window_rect :: "env \<Rightarrow> WND \<Rightarrow> RECT \<Rightarrow> RECT" where
  "X11DRV_X_to_window_rect e win rect =
     (if dwExStyle win AND WS_EX_MANAGED = 0 then rect
      else if IsRectEmpty rect then rect
      else fix_degenerate (X_to_window_adjusted e win rect))"

section \<open>Window attributes\<close>

definition is_client_window_mapped :: "xstate \<Rightarrow> bool" where
  "is_client_window_mapped s =
     (dwStyle (wnd s) AND WS_MINIMIZE = 0 \<and> \<not> IsRectEmpty (client_rect (drv s)))"

definition base_event_mask :: "32 word" where
  "base_event_mask =
     ExposureMask OR KeyPressMask OR KeyReleaseMask OR PointerMotionMask OR
     ButtonPressMask OR ButtonReleaseMask"

text \<open>
  \<open>get_window_attributes\<close> writes the managed bit back into the extended style
  (\<open>WIN_SetExStyle\<close>) and fills the attribute structure; it returns the window, the
  structure and the value mask.
\<close>

definition get_window_attributes ::
  "env \<Rightarrow> WND \<Rightarrow> XSetWindowAttributes \<Rightarrow> WND \<times> XSetWindowAttributes \<times> 32 word" where
  "get_window_attributes e win attr =
     (let is_top_level = is_window_top_level e win;
          managed = (is_top_level \<and> is_window_managed e win);
          win1 = (if managed then win\<lparr>dwExStyle := dwExStyle win OR WS_EX_MANAGED\<rparr>
                  else win\<lparr>dwExStyle := dwExStyle win AND NOT WS_EX_MANAGED\<rparr>);
          attr1 = attr\<lparr>attr_override_redirect := Some (\<not> managed),
                       attr_colormap := Some (palette_colormap e),
                       attr_save_under := Some (clsStyle win1 AND CS_SAVEBITS \<noteq> 0),
                       attr_cursor := Some 0,
                       attr_event_mask := Some base_event_mask\<rparr>;
          attr2 = (if is_window_top_level e win1
                   then attr1\<lparr>attr_event_mask :=
                                 Some (base_event_mask OR StructureNotifyMask OR
                                       FocusChangeMask OR KeymapStateMask),
                               attr_cursor := Some (X11DRV_GetCursor e)\<rparr>
                   else attr1)
      in (win1, attr2,
          CWOverrideRedirect OR CWSaveUnder OR CWEventMask OR CWColormap OR CWCursor))"

definition free_cursor :: "XSetWindowAttributes \<Rightarrow> xstate \<Rightarrow> xstate" where
  "free_cursor attr s =
     (case attr_cursor attr of
        None \<Rightarrow> s
      | Some c \<Rightarrow> if c \<noteq> 0 then issue [XFreeCursor c] s else s)"

definition sync_window_style :: "env \<Rightarrow> xstate \<Rightarrow> xstate" where
  "sync_window_style e s =
     (let (win1, attr, mask) = get_window_attributes e (wnd s) no_attributes;
          s1 = issue [XChangeWindowAttributes (whole_window (drv s)) mask attr] (s\<lparr>wnd := win1\<rparr>)
      in free_cursor attr s1)"

section \<open>Icon surrogate and icon hints\<close>

definition create_icon_window :: "env \<Rightarrow> xstate \<Rightarrow> XID \<times> xstate" where
  "create_icon_window e s =
     (let attr = no_attributes\<lparr>attr_event_mask := Some base_event_mask,
                               attr_bit_gravity := Some NorthWestGravity,
                               attr_backing_store := Some NotUseful,
                               attr_colormap := Some (palette_colormap e)\<rparr>;
          w = XCreateWindow_result e (root_window e) 0 0 (SM_CXICON e) (SM_CYICON e);
          s1 = s\<lparr>drv := (drv s)\<lparr>icon_window := w\<rparr>\<rparr>;
          s2 = issue [XCreateWindow (root_window e) 0 0 (SM_CXICON e) (SM_CYICON e)
                        (CWEventMask OR CWBitGravity OR CWBackingStore OR CWColormap) attr,
                      XSaveContext w (hwndSelf (wnd s)),
                      SetPropA (hwndSelf (wnd s)) icon_window_atom w] s1
      in (w, s2))"

definition destroy_icon_window :: "xstate \<Rightarrow> xstate" where
  "destroy_icon_window s =
     (if icon_window (drv s) = 0 then s
      else issue [XDeleteContext (icon_window (drv s)), XDestroyWindow (icon_window (drv s)),
                  RemovePropA (hwndSelf (wnd s)) icon_window_atom]
             (s\<lparr>drv := (drv s)\<lparr>icon_window := 0\<rparr>\<rparr>))"

definition icon_hint_flags :: "32 word" where
  "icon_hint_flags = IconPixmapHint OR IconMaskHint OR IconWindowHint"

text \<open>
  \<open>set_icon_hints\<close>: the owned bitmaps are deleted first; then one of three branches
  (not managed; managed without class icon; managed with class icon). The sequence that
  inverts the mask bitmap through a memory DC is logged as one call.
\<close>

definition set_icon_hints :: "env \<Rightarrow> xstate \<Rightarrow> XWMHints \<Rightarrow> xstate \<times> XWMHints" where
  "set_icon_hints e s hints =
     (let hIcon = GetClassLongA_HICON e (hwndSelf (wnd s));
          s1 = (if hWMIconBitmap (drv s) \<noteq> 0 then issue [DeleteObject (hWMIconBitmap (drv s))] s
                else s);
          s2 = (if hWMIconMask (drv s1) \<noteq> 0 then issue [DeleteObject (hWMIconMask (drv s1))] s1
                else s1);
          s3 = s2\<lparr>drv := (drv s2)\<lparr>hWMIconBitmap := 0, hWMIconMask := 0\<rparr>\<rparr>
      in if dwExStyle (wnd s3) AND WS_EX_MANAGED = 0 then
           (destroy_icon_window s3,
            hints\<lparr>wmh_flags := wmh_flags hints AND NOT icon_hint_flags\<rparr>)
         else if hIcon = 0 then
           (let s4 = (if icon_window (drv s3) = 0 then snd (create_icon_window e s3) else s3)
            in (s4, hints\<lparr>wmh_icon_window := icon_window (drv s4),
                          wmh_flags := (wmh_flags hints AND NOT (IconPixmapHint OR IconMaskHint))
                                       OR IconWindowHint\<rparr>))
         else
           (let (hbmMask, hbmColor) = GetIconInfo e hIcon;
                s4 = issue [X11DRV_CreateBitmap hbmMask, X11DRV_CreateBitmap hbmColor,
                            InvertRect_bitmap hbmMask] s3;
                s5 = s4\<lparr>drv := (drv s4)\<lparr>hWMIconBitmap := hbmColor, hWMIconMask := hbmMask\<rparr>\<rparr>;
                hints1 = hints\<lparr>wmh_icon_pixmap := X11DRV_BITMAP_Pixmap e hbmColor,
                               wmh_icon_mask := X11DRV_BITMAP_Pixmap e hbmMask\<rparr>;
                s6 = destroy_icon_window s5
            in (s6, hints1\<lparr>wmh_flags := (wmh_flags hints1 AND NOT IconWindowHint)
                                         OR IconPixmapHint OR IconMaskHint\<rparr>)))"

section \<open>Window-manager hints\<close>

definition HAS_DLGFRAME :: "DWORD \<Rightarrow> DWORD \<Rightarrow> bool" where
  "HAS_DLGFRAME style exStyle =
     (exStyle AND WS_EX_DLGMODALFRAME \<noteq> 0 \<or>
      (style AND WS_DLGFRAME \<noteq> 0 \<and> style AND WS_THICKFRAME = 0))"

text \<open>
  \<open>set_size_hints\<close>: nothing happens when \<open>XAllocSizeHints\<close> returns no structure;
  otherwise the hints are filled and set on the whole window with one call.
\<close>

definition size_hints_of :: "xstate \<Rightarrow> XSizeHints" where
  "size_hints_of s =
     (let wr = whole_rect (drv s);
          h0 = XAllocSizeHints_zero\<lparr>sh_win_gravity := StaticGravity,
                                    sh_x := r_left wr, sh_y := r_top wr,
                                    sh_flags := PWinGravity OR PPosition\<rparr>
      in if HAS_DLGFRAME (dwStyle (wnd s)) (dwExStyle (wnd s))
         then h0\<lparr>sh_max_width := r_right wr - r_left wr,
                  sh_max_height := r_bottom wr - r_top wr,
                  sh_min_width := r_right wr - r_left wr,
                  sh_min_height := r_bottom wr - r_top wr,
                  sh_flags := sh_flags h0 OR PMinSize OR PMaxSize\<rparr>
         else h0)"

definition set_size_hints :: "env \<Rightarrow> xstate \<Rightarrow> xstate" where
  "set_size_hints e s =
     (if XAllocSizeHints_ok e
      then issue [XSetWMNormalHints (whole_window (drv s)) (size_hints_of s)] s
      else s)"

text \<open>\<open>X11DRV_get_whole_window\<close> and \<open>X11DRV_get_client_window\<close>, for another window.\<close>

definition X11DRV_get_whole_window :: "env \<Rightarrow> HWND \<Rightarrow> XID" where
  "X11DRV_get_whole_window e hwnd =
     (case WIN_GetPtr e hwnd of
        WND_OTHER_PROCESS \<Rightarrow> GetPropA e hwnd whole_window_atom
      | WND_LOCAL win data \<Rightarrow> whole_window data
      | WND_NULL \<Rightarrow> 0)"

definition X11DRV_get_client_window :: "env \<Rightarrow> HWND \<Rightarrow> XID" where
  "X11DRV_get_client_window e hwnd =
     (case WIN_GetPtr e hwnd of
        WND_OTHER_PROCESS \<Rightarrow> GetPropA e hwnd client_window_atom
      | WND_LOCAL win data \<Rightarrow> client_window data
      | WND_NULL \<Rightarrow> 0)"

definition flag_if :: "bool \<Rightarrow> 32 word \<Rightarrow> 32 word" where
  "flag_if c m = (if c then m else 0)"

definition mwm_hints_of :: "WND \<Rightarrow> MwmHints" where
  "mwm_hints_of win =
     (let st = dwStyle win; ex = dwExStyle win
      in \<lparr>mwm_flags = MWM_HINTS_FUNCTIONS OR MWM_HINTS_DECORATIONS,
          mwm_functions =
            flag_if (st AND WS_CAPTION = WS_CAPTION) MWM_FUNC_MOVE OR
            flag_if (st AND WS_THICKFRAME \<noteq> 0) (MWM_FUNC_MOVE OR MWM_FUNC_RESIZE) OR
            flag_if (st AND WS_MINIMIZE \<noteq> 0) MWM_FUNC_MINIMIZE OR
            flag_if (st AND WS_MAXIMIZE \<noteq> 0) MWM_FUNC_MAXIMIZE OR
            flag_if (st AND WS_SYSMENU \<noteq> 0) MWM_FUNC_CLOSE,
          mwm_decorations =
            flag_if (st AND WS_CAPTION = WS_CAPTION) MWM_DECOR_TITLE OR
            (if ex AND WS_EX_DLGMODALFRAME \<noteq> 0 then MWM_DECOR_BORDER
             else if st AND WS_THICKFRAME \<noteq> 0 then MWM_DECOR_BORDER OR MWM_DECOR_RESIZEH
             else if st AND (WS_DLGFRAME OR WS_BORDER) = WS_DLGFRAME then MWM_DECOR_BORDER
             else if st AND WS_BORDER \<noteq> 0 then MWM_DECOR_BORDER
             else if st AND (WS_CHILD OR WS_POPUP) = 0 then MWM_DECOR_BORDER
             else 0) OR
            flag_if (st AND WS_SYSMENU \<noteq> 0) MWM_DECOR_MENU OR
            flag_if (st AND WS_MINIMIZE \<noteq> 0) MWM_DECOR_MINIMIZE OR
            flag_if (st AND WS_MAXIMIZE \<noteq> 0) MWM_DECOR_MAXIMIZE\<rparr>)"

text \<open>\<open>set_wm_hints\<close>, in the order of the source.\<close>

definition set_wm_hints :: "env \<Rightarrow> xstate \<Rightarrow> xstate" where
  "set_wm_hints e s =
     (let whole = whole_window (drv s);
          s1 = issue [XSetWMProtocols whole
                        (wmDeleteWindow e # (if wmTakeFocus e \<noteq> 0 then [wmTakeFocus e] else []))] s;
          s2 = (if XAllocClassHint_ok e then issue [XSetClassHint whole ''wine'' ''Wine''] s1
                else s1);
          owner_win = X11DRV_get_whole_window e (owner (wnd s2));
          s3 = (if owner (wnd s2) \<noteq> 0 then issue [XSetTransientForHint whole owner_win] s2
                else s2);
          group_leader = (if owner (wnd s2) \<noteq> 0 then owner_win else whole);
          s4 = set_size_hints e s3;
          s5 = (if dwExStyle (wnd s4) AND WS_EX_TRAYWINDOW \<noteq> 0
                then issue ((if kwmDockWindow e \<noteq> 0
                             then [XChangeProperty whole (kwmDockWindow e) (kwmDockWindow e) [1]]
                             else []) @
                            (if kde_net_wm_system_tray_window_for e \<noteq> 0
                             then [XChangeProperty whole (kde_net_wm_system_tray_window_for e)
                                     XA_WINDOW [whole]]
                             else [])) s4
                else s4);
          s6 = (if mwmHints e \<noteq> 0
                then issue [XChangeProperty_mwm whole (mwmHints e) (mwm_hints_of (wnd s5))] s5
                else s5)
      in if XAllocWMHints_ok e then
           (let h0 = XAllocWMHints_zero\<lparr>wmh_flags := InputHint OR StateHint OR WindowGroupHint,
                                        wmh_input := (wmTakeFocus e = 0)\<rparr>;
                (s7, h1) = set_icon_hints e s6 h0;
                h2 = h1\<lparr>wmh_initial_state :=
                           (if dwStyle (wnd s7) AND WS_MINIMIZE \<noteq> 0 then IconicState
                            else NormalState),
                        wmh_window_group := group_leader\<rparr>
            in issue [XSetWMHints whole h2] s7)
         else s6)"

section \<open>Geometry synchronisation\<close>

text \<open>
  Modelled from the spec: \<open>GetWindow(hwnd, GW_HWNDPREV)\<close> is a user32 function; on the
  logical sibling chain it gives the sibling just before \<open>hwnd\<close>, and 0 for the first
  sibling or a window that is not in the chain.
\<close>

fun hwnd_prev :: "HWND list \<Rightarrow> HWND \<Rightarrow> HWND" where
  "hwnd_prev (x # y # ys) h = (if x = h then 0 else if y = h then x else hwnd_prev (y # ys) h)"
| "hwnd_prev ys h = 0"

definition GetWindow_HWNDPREV :: "env \<Rightarrow> HWND \<Rightarrow> HWND" where
  "GetWindow_HWNDPREV e hwnd = hwnd_prev (siblings e) hwnd"

definition chain_position :: "HWND list \<Rightarrow> HWND \<Rightarrow> nat" where
  "chain_position xs h = (if h = 0 then 0 else Suc (length (takeWhile (\<lambda>x. x \<noteq> h) xs)))"

lemma hwnd_prev_earlier:
  "hwnd_prev xs h \<noteq> 0 \<Longrightarrow>
   length (takeWhile (\<lambda>x. x \<noteq> hwnd_prev xs h) xs) < length (takeWhile (\<lambda>x. x \<noteq> h) xs)"
  by (induction xs h rule: hwnd_prev.induct) auto

lemma chain_position_prev:
  "h \<noteq> 0 \<Longrightarrow> chain_position xs (hwnd_prev xs h) < chain_position xs h"
  using hwnd_prev_earlier [of xs h] by (auto simp: chain_position_def)

text \<open>
  The loop \<open>while (prev && !(GetWindowLongW( prev, GWL_STYLE ) & WS_VISIBLE))\<close> of
  \<open>X11DRV_sync_whole_window_position\<close>: it ends because each step moves towards the
  head of the chain.
\<close>

function find_visible_prev :: "env \<Rightarrow> HWND \<Rightarrow> HWND" where
  "find_visible_prev e prev =
     (if prev \<noteq> 0 \<and> GetWindowLongW_style e prev AND WS_VISIBLE = 0
      then find_visible_prev e (GetWindow_HWNDPREV e prev)
      else prev)"
  by pat_completeness auto
termination
  by (relation "measure (\<lambda>(e, prev). chain_position (siblings e) prev)")
     (auto simp: GetWindow_HWNDPREV_def chain_position_prev)

declare find_visible_prev.simps [simp del]

text \<open>
  \<open>X11DRV_sync_whole_window_position\<close>, first half: the translated rectangle, the
  mask and the changes, with the stacking request when \<open>zorder\<close> is set.
\<close>

definition whole_window_changes :: "env \<Rightarrow> xstate \<Rightarrow> bool \<Rightarrow> RECT \<times> 32 word \<times> XWindowChanges" where
  "whole_window_changes e s want_zorder =
     (let whole = X11DRV_window_to_X_rect e (wnd s) (rectWindow (wnd s));
          (mask0, changes0) = get_window_changes no_changes (whole_rect (drv s)) whole
      in if want_zorder then
           (let prev = find_visible_prev e (GetWindow_HWNDPREV e (hwndSelf (wnd s)))
            in if prev = 0
               then (whole, mask0 OR CWStackMode, changes0\<lparr>ch_stack_mode := Some Above\<rparr>)
               else (whole, mask0 OR CWStackMode OR CWSibling,
                     changes0\<lparr>ch_stack_mode := Some Below,
                               ch_sibling := Some (X11DRV_get_whole_window e prev)\<rparr>))
         else (whole, mask0, changes0))"

text \<open>Second half: the rectangle is recorded, and a non-empty mask is applied.\<close>

definition X11DRV_sync_whole_window_position :: "env \<Rightarrow> xstate \<Rightarrow> bool \<Rightarrow> 32 word \<times> xstate" where
  "X11DRV_sync_whole_window_position e s want_zorder =
     (let (whole, mask, changes) = whole_window_changes e s want_zorder;
          s1 = s\<lparr>drv := (drv s)\<lparr>whole_rect := whole\<rparr>\<rparr>
      in if mask \<noteq> 0 then
           (let s2 = issue [XSync] s1;
                s3 = (if is_window_top_level e (wnd s2)
                      then issue [XReconfigureWMWindow (whole_window (drv s2)) mask changes]
                             (if mask AND (CWWidth OR CWHeight) \<noteq> 0 then set_size_hints e s2
                              else s2)
                      else issue [XConfigureWindow (whole_window (drv s2)) mask changes] s2)
            in (mask, s3))
         else (mask, s1))"

text \<open>
  \<open>X11DRV_sync_client_window_position\<close>: the client rectangle relative to the whole
  window, then the unmap, the reconfiguration and the map in this order.
\<close>

definition new_client_rect :: "xstate \<Rightarrow> RECT" where
  "new_client_rect s =
     OffsetRect (rectClient (wnd s)) (- r_left (whole_rect (drv s))) (- r_top (whole_rect (drv s)))"

definition X11DRV_sync_client_window_position :: "env \<Rightarrow> xstate \<Rightarrow> 32 word \<times> xstate" where
  "X11DRV_sync_client_window_position e s =
     (let client = new_client_rect s;
          (mask, changes) = get_window_changes no_changes (client_rect (drv s)) client
      in if mask \<noteq> 0 then
           (let was_mapped = is_client_window_mapped s;
                s1 = s\<lparr>drv := (drv s)\<lparr>client_rect := client\<rparr>\<rparr>;
                s2 = issue [XSync] s1;
                s3 = (if was_mapped \<and> \<not> is_client_window_mapped s2
                      then issue [XUnmapWindow (client_window (drv s2))] s2 else s2);
                s4 = issue [XConfigureWindow (client_window (drv s3)) mask changes] s3;
                s5 = (if \<not> was_mapped \<and> is_client_window_mapped s4
                      then issue [XMapWindow (client_window (drv s4))] s4 else s4)
            in (mask, s5))
         else (mask, s))"

definition X11DRV_register_window :: "xstate \<Rightarrow> xstate" where
  "X11DRV_register_window s =
     issue [XSaveContext (whole_window (drv s)) (hwndSelf (wnd s)),
            XSaveContext (client_window (drv s)) (hwndSelf (wnd s))] s"

section \<open>Creation and destruction of the peers\<close>

text \<open>
  The window as \<open>X11DRV_CreateWindow\<close> and \<open>X11DRV_DestroyWindow\<close> see it:
  \<open>wndPtr->pDriverData\<close> may be \<open>NULL\<close>.
\<close>

record winstate =
  w_wnd :: WND
  w_data :: "x11drv_win_data option"
  w_log :: "xcall list"

definition with_data :: "winstate \<Rightarrow> x11drv_win_data \<Rightarrow> xstate" where
  "with_data ws data = \<lparr>wnd = w_wnd ws, drv = data, xlog = w_log ws\<rparr>"

definition leave :: "xstate \<Rightarrow> winstate" where
  "leave s = \<lparr>w_wnd = wnd s, w_data = Some (drv s), w_log = xlog s\<rparr>"

text \<open>
  \<open>X11DRV_DestroyWindow\<close>: with a whole window, the two context entries are deleted,
  the whole window is destroyed ("this destroys client too") and then the icon window;
  after that the owned bitmaps are deleted and the driver data is freed.
\<close>

definition X11DRV_DestroyWindow :: "winstate \<Rightarrow> bool \<times> winstate" where
  "X11DRV_DestroyWindow ws =
     (case w_data ws of
        None \<Rightarrow> (True, ws)
      | Some data \<Rightarrow>
          (let s = with_data ws data;
               s1 = (if whole_window (drv s) \<noteq> 0
                     then destroy_icon_window
                            (issue [XSync, XDeleteContext (whole_window (drv s)),
                                    XDeleteContext (client_window (drv s)),
                                    XDestroyWindow (whole_window (drv s))] s)
                     else s);
               s2 = (if hWMIconBitmap (drv s1) \<noteq> 0
                     then issue [DeleteObject (hWMIconBitmap (drv s1))] s1 else s1);
               s3 = (if hWMIconMask (drv s2) \<noteq> 0
                     then issue [DeleteObject (hWMIconMask (drv s2))] s2 else s2);
               s4 = issue [HeapFree_data] s3
           in (True, \<lparr>w_wnd = wnd s4, w_data = None, w_log = xlog s4\<rparr>)))"

definition nonzero_or_1 :: "LONG \<Rightarrow> LONG" where
  "nonzero_or_1 v = (if v = 0 then 1 else v)"

definition max_signed :: "LONG \<Rightarrow> LONG \<Rightarrow> LONG" where
  "max_signed a b = (if b <s a then a else b)"

text \<open>
  \<open>create_whole_window\<close>: the rectangle is translated with the extended style as it
  is on entry; \<open>get_window_attributes\<close> then sets or clears the managed bit. The
  result is 0 when \<open>XCreateWindow\<close> fails.
\<close>

definition create_whole_window :: "env \<Rightarrow> xstate \<Rightarrow> XID \<times> xstate" where
  "create_whole_window e s =
     (let is_top_level = is_window_top_level e (wnd s);
          rect = X11DRV_window_to_X_rect e (wnd s) (rectWindow (wnd s));
          cx = nonzero_or_1 (r_right rect - r_left rect);
          cy = nonzero_or_1 (r_bottom rect - r_top rect);
          parent_win = X11DRV_get_client_window e (parent (wnd s));
          (win1, attr0, mask0) = get_window_attributes e (wnd s) no_attributes;
          attr = attr0\<lparr>attr_bit_gravity := Some ForgetGravity,
                       attr_win_gravity := Some NorthWestGravity,
                       attr_backing_store := Some NotUseful\<rparr>;
          mask = mask0 OR CWBitGravity OR CWWinGravity OR CWBackingStore;
          w = XCreateWindow_result e parent_win (r_left rect) (r_top rect) cx cy;
          s1 = issue [XCreateWindow parent_win (r_left rect) (r_top rect) cx cy mask attr]
                 (s\<lparr>wnd := win1, drv := (drv s)\<lparr>whole_rect := rect, whole_window := w\<rparr>\<rparr>);
          s2 = free_cursor attr s1
      in if w = 0 then (0, s2)
         else
           (let s3 = (if dwStyle (wnd s2) AND (WS_CHILD OR WS_MAXIMIZE) = WS_CHILD
                      then issue [XConfigureWindow w CWStackMode
                                    (no_changes\<lparr>ch_stack_mode := Some Below\<rparr>)] s2
                      else s2);
                s4 = (if is_top_level then set_wm_hints e s3 else s3)
            in (w, s4)))"

definition create_client_window :: "env \<Rightarrow> xstate \<Rightarrow> XID \<times> xstate" where
  "create_client_window e s =
     (let rect = OffsetRect (whole_rect (drv s))
                   (- r_left (whole_rect (drv s))) (- r_top (whole_rect (drv s)));
          s1 = s\<lparr>drv := (drv s)\<lparr>client_rect := rect\<rparr>\<rparr>;
          attr = no_attributes\<lparr>attr_event_mask := Some base_event_mask,
                               attr_bit_gravity :=
                                 Some (if clsStyle (wnd s) AND (CS_VREDRAW OR CS_HREDRAW) \<noteq> 0
                                       then ForgetGravity else NorthWestGravity),
                               attr_backing_store := Some NotUseful\<rparr>;
          cx = max_signed (r_right rect - r_left rect) 1;
          cy = max_signed (r_bottom rect - r_top rect) 1;
          w = XCreateWindow_result e (whole_window (drv s1)) 0 0 cx cy;
          s2 = issue [XCreateWindow (whole_window (drv s1)) 0 0 cx cy
                        (CWEventMask OR CWBitGravity OR CWBackingStore) attr]
                 (s1\<lparr>drv := (drv s1)\<lparr>client_window := w\<rparr>\<rparr>);
          s3 = (if w \<noteq> 0 \<and> is_client_window_mapped s2 then issue [XMapWindow w] s2 else s2)
      in (w, s3))"

text \<open>
  \<open>create_desktop\<close>: the desktop window maps onto the root window. The atoms it
  interns are the atoms of the environment.
\<close>

definition create_desktop :: "env \<Rightarrow> HANDLE \<Rightarrow> xstate \<Rightarrow> xstate" where
  "create_desktop e visual_id s =
     (let hwnd = hwndSelf (wnd s);
          s1 = issue [XInternAtoms] s;
          s2 = s1\<lparr>drv := (drv s1)\<lparr>whole_window := root_window e, client_window := root_window e,
                                    whole_rect := rectWindow (wnd s1),
                                    client_rect := rectWindow (wnd s1)\<rparr>\<rparr>;
          s3 = issue [SetPropA hwnd whole_window_atom (root_window e),
                      SetPropA hwnd client_window_atom (root_window e),
                      SetPropA hwnd ''__wine_x11_visual_id'' visual_id,
                      SendMessage hwnd ''WM_NCCREATE''] s2
      in if \<not> root_is_default e then issue [X11DRV_create_desktop_thread] s3 else s3)"

text \<open>
  The creation parameters, and what the hooks, the messages and the window table answer
  during \<open>X11DRV_CreateWindow\<close>. Window procedures are not modelled: a message is
  logged and its result is taken from here; \<open>window_alive n\<close> says whether the
  \<open>n\<close>-th \<open>WIN_GetPtr\<close> after a release still finds the window.
\<close>

record CREATESTRUCT =
  cs_x :: LONG
  cs_y :: LONG
  cs_cx :: LONG
  cs_cy :: LONG
  cs_style :: DWORD

record create_env =
  HeapAlloc_ok :: bool
  visual_id :: HANDLE
  HOOK_IsHooked_CBT :: bool
  HOOK_CallHooks_result :: "32 word"
  WINPOS_GetMinMaxInfo :: "(LONG \<times> LONG) \<times> (LONG \<times> LONG)"
  WM_NCCREATE_result :: "32 word"
  WM_NCCALCSIZE_rect :: "RECT \<Rightarrow> RECT"
  WM_CREATE_result :: "32 word"
  window_alive :: "nat \<Rightarrow> bool"

text \<open>The two size checks at the head of \<open>X11DRV_CreateWindow\<close>.\<close>

definition clamp_create_size :: "CREATESTRUCT \<Rightarrow> CREATESTRUCT" where
  "clamp_create_size cs =
     (let cs1 = (if 65535 <s cs_cx cs then cs\<lparr>cs_cx := 65535\<rparr> else cs)
      in if 65535 <s cs_cy cs1 then cs1\<lparr>cs_cy := 65535\<rparr> else cs1)"

text \<open>The label \<open>failed\<close>: the standard teardown, and the result \<open>FALSE\<close>.\<close>

definition create_failed :: "CREATESTRUCT \<Rightarrow> xstate \<Rightarrow> bool \<times> CREATESTRUCT \<times> winstate" where
  "create_failed cs s = (False, cs, snd (X11DRV_DestroyWindow (leave s)))"

text \<open>
  \<open>WM_GETMINMAXINFO\<close>: for a window with a thick frame, or neither popup nor child,
  the size is fitted to the answer and the whole window is synchronised. \<open>None\<close>
  when the window is gone afterwards.
\<close>

definition fit_minmax :: "create_env \<Rightarrow> CREATESTRUCT \<Rightarrow> CREATESTRUCT" where
  "fit_minmax ce cs =
     (let ((max_x, max_y), (min_x, min_y)) = WINPOS_GetMinMaxInfo ce;
          cs1 = (if max_x <s cs_cx cs then cs\<lparr>cs_cx := max_x\<rparr> else cs);
          cs2 = (if max_y <s cs_cy cs1 then cs1\<lparr>cs_cy := max_y\<rparr> else cs1);
          cs3 = (if cs_cx cs2 <s min_x then cs2\<lparr>cs_cx := min_x\<rparr> else cs2);
          cs4 = (if cs_cy cs3 <s min_y then cs3\<lparr>cs_cy := min_y\<rparr> else cs3);
          cs5 = (if cs_cx cs4 <s 0 then cs4\<lparr>cs_cx := 0\<rparr> else cs4)
      in if cs_cy cs5 <s 0 then cs5\<lparr>cs_cy := 0\<rparr> else cs5)"

definition create_window_messages ::
  "env \<Rightarrow> create_env \<Rightarrow> CREATESTRUCT \<Rightarrow> xstate \<Rightarrow> bool \<times> CREATESTRUCT \<times> winstate" where
  "create_window_messages e ce cs s =
     (let hwnd = hwndSelf (wnd s);
          s1 = issue [SendMessage hwnd ''WM_NCCREATE''] s
      in if WM_NCCREATE_result ce = 0 then (False, cs, leave s1)
         else if \<not> window_alive ce 2 then (False, cs, leave s1)
         else
           (let s2 = sync_window_style e s1;
                s3 = issue [SendMessage hwnd ''WM_NCCALCSIZE''] s2;
                rect1 = WM_NCCALCSIZE_rect ce (rectWindow (wnd s2))
            in if \<not> window_alive ce 3 then (False, cs, leave s3)
               else
                 (let rect = (if r_right rect1 <s r_left rect1 \<or> r_bottom rect1 <s r_top rect1
                              then rectWindow (wnd s3) else rect1);
                      s4 = s3\<lparr>wnd := (wnd s3)\<lparr>rectClient := rect\<rparr>\<rparr>;
                      s5 = snd (X11DRV_sync_client_window_position e s4);
                      s6 = X11DRV_register_window s5;
                      s7 = issue [WIN_LinkWindow hwnd (parent (wnd s6))
                                    (dwStyle (wnd s6) AND (WS_CHILD OR WS_MAXIMIZE) = WS_CHILD),
                                  SendMessage hwnd ''WM_CREATE''] s6
                  in if WM_CREATE_result ce = - 1
                     then (False, cs, leave (issue [WIN_UnlinkWindow hwnd] s7))
                     else if \<not> window_alive ce 4 then (False, cs, leave s7)
                     else
                       (let s8 = (if flags (wnd s7) AND WIN_NEED_SIZE = 0
                                  then issue [SendMessage hwnd ''WM_SIZE'',
                                              SendMessage hwnd ''WM_MOVE''] s7
                                  else s7);
                            s9 = (if dwStyle (wnd s8) AND (WS_MINIMIZE OR WS_MAXIMIZE) \<noteq> 0
                                  then issue [WINPOS_MinMaximize_call hwnd
                                                (dwStyle (wnd s8) AND WS_MINIMIZE \<noteq> 0),
                                              SetWindowPos_call hwnd]
                                         (s8\<lparr>wnd := (wnd s8)\<lparr>dwStyle :=
                                                dwStyle (wnd s8) AND NOT (WS_MAXIMIZE OR WS_MINIMIZE)\<rparr>\<rparr>)
                                  else s8)
                        in (True, cs, leave s9)))))"

definition create_window_after_peers ::
  "env \<Rightarrow> create_env \<Rightarrow> CREATESTRUCT \<Rightarrow> xstate \<Rightarrow> bool \<times> CREATESTRUCT \<times> winstate" where
  "create_window_after_peers e ce cs s =
     (let hwnd = hwndSelf (wnd s);
          s1 = issue [TSXSync, SetPropA hwnd whole_window_atom (whole_window (drv s)),
                      SetPropA hwnd client_window_atom (client_window (drv s))] s;
          hwndLinkAfter_bottom = (cs_style cs AND (WS_CHILD OR WS_MAXIMIZE) = WS_CHILD);
          s2 = (if HOOK_IsHooked_CBT ce
                then issue [HOOK_CallHooks_CBT hwnd (if hwndLinkAfter_bottom then 1 else 0)] s1
                else s1)
      in if HOOK_IsHooked_CBT ce \<and> HOOK_CallHooks_result ce \<noteq> 0 then create_failed cs s2
         else if cs_style cs AND WS_THICKFRAME \<noteq> 0 \<or> cs_style cs AND (WS_POPUP OR WS_CHILD) = 0
         then
           (let s3 = issue [WINPOS_GetMinMaxInfo_call hwnd] s2;
                cs1 = fit_minmax ce cs
            in if \<not> window_alive ce 1 then (False, cs1, leave s3)
               else
                 (let rect = SetRect (cs_x cs1) (cs_y cs1)
                               (cs_x cs1 + cs_cx cs1) (cs_y cs1 + cs_cy cs1);
                      s4 = s3\<lparr>wnd := (wnd s3)\<lparr>rectWindow := rect, rectClient := rect\<rparr>\<rparr>;
                      s5 = snd (X11DRV_sync_whole_window_position e s4 False)
                  in create_window_messages e ce cs1 s5))
         else create_window_messages e ce cs s2)"

text \<open>
  \<open>X11DRV_CreateWindow\<close> returns its result, the creation parameters as it leaves
  them, and the window. The driver data is allocated and its handles are zeroed, the
  rectangle of the request is stored in the window, and then the peers are created. The
  rectangles of the fresh driver data are never read before they are written; they start
  as the zero rectangle here.
\<close>

definition fresh_data :: x11drv_win_data where
  "fresh_data =
     \<lparr>whole_window = 0, client_window = 0, icon_window = 0, whole_rect = zero_rect,
      client_rect = zero_rect, hWMIconBitmap = 0, hWMIconMask = 0\<rparr>"

definition create_initial_state :: "CREATESTRUCT \<Rightarrow> winstate \<Rightarrow> xstate" where
  "create_initial_state cs ws =
     (let rect = SetRect (cs_x cs) (cs_y cs) (cs_x cs + cs_cx cs) (cs_y cs + cs_cy cs)
      in \<lparr>wnd = (w_wnd ws)\<lparr>rectWindow := rect, rectClient := rect\<rparr>,
          drv = fresh_data, xlog = w_log ws\<rparr>)"

definition X11DRV_CreateWindow ::
  "env \<Rightarrow> create_env \<Rightarrow> CREATESTRUCT \<Rightarrow> winstate \<Rightarrow> bool \<times> CREATESTRUCT \<times> winstate" where
  "X11DRV_CreateWindow e ce cs0 ws =
     (let cs = clamp_create_size cs0
      in if \<not> HeapAlloc_ok ce then (False, cs, ws)
         else
           (let s = create_initial_state cs ws
            in if parent (wnd s) = 0 then (True, cs, leave (create_desktop e (visual_id ce) s))
               else
                 (let (whole, s1) = create_whole_window e s
                  in if whole = 0 then create_failed cs s1
                     else
                       (let (client, s2) = create_client_window e s1
                        in if client = 0 then create_failed cs s2
                           else create_window_after_peers e ce cs s2))))"

section \<open>Notions used in the statements\<close>


text \<open>\<open>first_then a b log\<close>: of the calls \<open>a\<close> and \<open>b\<close>, \<open>a\<close> is issued first and \<open>b\<close> later.\<close>

fun first_then :: "xcall \<Rightarrow> xcall \<Rightarrow> xcall list \<Rightarrow> bool" where
  "first_then a b [] = False"
| "first_then a b (c # cs) =
     (if c = a then b \<in> set cs else if c = b then False else first_then a b cs)"

text \<open>The size hints of the last \<open>XSetWMNormalHints\<close> in a log: those in force after it.\<close>

fun last_size_hints :: "xcall list \<Rightarrow> XSizeHints option" where
  "last_size_hints [] = None"
| "last_size_hints (c # cs) =
     (case last_size_hints cs of
        Some h \<Rightarrow> Some h
      | None \<Rightarrow> (case c of XSetWMNormalHints w h \<Rightarrow> Some h | _ \<Rightarrow> None))"

definition last_or_0 :: "HWND list \<Rightarrow> HWND" where
  "last_or_0 xs = (if xs = [] then 0 else last xs)"

text \<open>\<open>starts_with p log\<close>: the calls \<open>p\<close> are the first calls of the log, in this order.\<close>

definition starts_with :: "xcall list \<Rightarrow> xcall list \<Rightarrow> bool" where
  "starts_with p l = (take (length p) l = p)"

section \<open>Test inputs\<close>

text \<open>
  A concrete environment for the examples: managed mode on; the desktop window 1 on the
  root window 100; the sibling chain 10 (visible, peer 510), 11 (hidden, of another
  process), 2 (the window of the examples); a metrics calculator that adds a 4-unit
  border and a 19-unit title bar whatever the style; a server that gives the id 500 to a
  whole window, 501 to a client window and 502 to an icon window.
\<close>

definition test_margins :: RECT where
  "test_margins = \<lparr>r_left = - 4, r_top = - 23, r_right = 4, r_bottom = 4\<rparr>"

definition test_wnd :: WND where
  "test_wnd = \<lparr>hwndSelf = 2, parent = 1, owner = 0, dwStyle = 0, dwExStyle = 0,
                clsStyle = 0, flags = 0, rectWindow = zero_rect, rectClient = zero_rect\<rparr>"

definition desktop_data :: x11drv_win_data where
  "desktop_data =
     \<lparr>whole_window = 100, client_window = 100, icon_window = 0,
      whole_rect = \<lparr>r_left = 0, r_top = 0, r_right = 1024, r_bottom = 768\<rparr>,
      client_rect = \<lparr>r_left = 0, r_top = 0, r_right = 1024, r_bottom = 768\<rparr>,
      hWMIconBitmap = 0, hWMIconMask = 0\<rparr>"

definition sibling_data :: x11drv_win_data where
  "sibling_data =
     \<lparr>whole_window = 510, client_window = 511, icon_window = 0, whole_rect = zero_rect,
      client_rect = zero_rect, hWMIconBitmap = 0, hWMIconMask = 0\<rparr>"

definition test_env :: env where
  "test_env =
     \<lparr>managed_mode = True, root_is_default = True, root_window = 100, desktop_window = 1,
      AdjustWindowRectEx = (\<lambda>rc style menu exStyle. rect_add rc test_margins),
      WIN_GetPtr = (\<lambda>h. if h = 1 then WND_LOCAL (test_wnd\<lparr>hwndSelf := 1, parent := 0\<rparr>) desktop_data
                        else if h = 10 then WND_LOCAL (test_wnd\<lparr>hwndSelf := 10\<rparr>) sibling_data
                        else if h = 11 then WND_OTHER_PROCESS else WND_NULL),
      GetPropA = (\<lambda>h a. if h = 11 \<and> a = whole_window_atom then 520 else 0),
      siblings = [10, 11, 2],
      GetWindowLongW_style = (\<lambda>h. if h = 11 then 0 else WS_VISIBLE),
      XCreateWindow_result = (\<lambda>p x y w h. if w = 32 \<and> h = 32 then 502
                                             else if x = 0 \<and> y = 0 then 501 else 500),
      palette_colormap = 7, X11DRV_GetCursor = 0, SM_CXICON = 32, SM_CYICON = 32,
      wmDeleteWindow = 201, wmTakeFocus = 0, mwmHints = 202, kwmDockWindow = 203,
      kde_net_wm_system_tray_window_for = 204,
      XAllocClassHint_ok = True, XAllocSizeHints_ok = True, XAllocWMHints_ok = True,
      GetClassLongA_HICON = (\<lambda>h. 0), GetIconInfo = (\<lambda>i. (i + 1, i + 2)),
      X11DRV_BITMAP_Pixmap = (\<lambda>b. b + 1000)\<rparr>"

definition test_create_env :: create_env where
  "test_create_env =
     \<lparr>HeapAlloc_ok = True, visual_id = 35, HOOK_IsHooked_CBT = False,
      HOOK_CallHooks_result = 0,
      WINPOS_GetMinMaxInfo = ((1024, 768), (112, 27)),
      WM_NCCREATE_result = 1, WM_NCCALCSIZE_rect = (\<lambda>rc. rc), WM_CREATE_result = 0,
      window_alive = (\<lambda>n. True)\<rparr>"

text \<open>A managed window with a caption, and the rectangle (10,10,210,110).\<close>

definition managed_wnd :: WND where
  "managed_wnd = test_wnd\<lparr>dwStyle := WS_CAPTION, dwExStyle := WS_EX_MANAGED\<rparr>"

definition rect_10_10_210_110 :: RECT where
  "rect_10_10_210_110 = \<lparr>r_left = 10, r_top = 10, r_right = 210, r_bottom = 110\<rparr>"

text \<open>
  The driver data of window 2 once its peers exist (whole window 500, client window 501,
  both rectangles 100 by 100 at the origin), without and with icon resources.
\<close>

definition test_data :: x11drv_win_data where
  "test_data =
     \<lparr>whole_window = 500, client_window = 501, icon_window = 0,
      whole_rect = \<lparr>r_left = 0, r_top = 0, r_right = 100, r_bottom = 100\<rparr>,
      client_rect = \<lparr>r_left = 0, r_top = 0, r_right = 100, r_bottom = 100\<rparr>,
      hWMIconBitmap = 0, hWMIconMask = 0\<rparr>"

definition test_data_icons :: x11drv_win_data where
  "test_data_icons = test_data\<lparr>icon_window := 502, hWMIconBitmap := 60, hWMIconMask := 61\<rparr>"

text \<open>A creation request for a 200 by 100 window at (10,10) with a dialog frame.\<close>

definition dialog_request :: CREATESTRUCT where
  "dialog_request = \<lparr>cs_x = 10, cs_y = 10, cs_cx = 200, cs_cy = 100, cs_style = WS_DLGFRAME\<rparr>"

definition dialog_window :: winstate where
  "dialog_window = \<lparr>w_wnd = test_wnd\<lparr>dwStyle := WS_DLGFRAME\<rparr>, w_data = None, w_log = []\<rparr>"



section \<open>Lemmas\<close>

subsection \<open>The log and the state under the small steps\<close>

lemma wnd_issue [simp]: "wnd (issue cs s) = wnd s"
  by (simp add: issue_def)

lemma drv_issue [simp]: "drv (issue cs s) = drv s"
  by (simp add: issue_def)

lemma xlog_issue [simp]: "xlog (issue cs s) = xlog s @ cs"
  by (simp add: issue_def)

lemma wnd_free_cursor [simp]: "wnd (free_cursor attr s) = wnd s"
  by (simp add: free_cursor_def split: option.split)

lemma drv_free_cursor [simp]: "drv (free_cursor attr s) = drv s"
  by (simp add: free_cursor_def split: option.split)

lemma wnd_destroy_icon_window [simp]: "wnd (destroy_icon_window s) = wnd s"
  by (simp add: destroy_icon_window_def)

lemma icon_window_destroyed [simp]: "icon_window (drv (destroy_icon_window s)) = 0"
  by (simp add: destroy_icon_window_def)

lemma bitmaps_destroy_icon_window [simp]:
  "hWMIconBitmap (drv (destroy_icon_window s)) = hWMIconBitmap (drv s)"
  "hWMIconMask (drv (destroy_icon_window s)) = hWMIconMask (drv s)"
  by (simp_all add: destroy_icon_window_def)

lemma xlog_destroy_icon_window:
  "xlog (destroy_icon_window s) =
     xlog s @ (if icon_window (drv s) = 0 then []
               else [XDeleteContext (icon_window (drv s)), XDestroyWindow (icon_window (drv s)),
                     RemovePropA (hwndSelf (wnd s)) icon_window_atom])"
  by (simp add: destroy_icon_window_def)












subsection \<open>Masks\<close>







lemma get_window_changes_no_stack_bits:
  "fst (get_window_changes c old new) AND (CWStackMode OR CWSibling) = 0"
  by (simp add: get_window_changes_def Let_def CWX_def CWY_def CWWidth_def CWHeight_def
        CWStackMode_def CWSibling_def)

lemma get_window_changes_stack_fields:
  "ch_stack_mode (snd (get_window_changes c old new)) = ch_stack_mode c"
  "ch_sibling (snd (get_window_changes c old new)) = ch_sibling c"
  by (simp_all add: get_window_changes_def Let_def)

lemma stack_bits:
  fixes m :: "32 word"
  assumes "m AND (CWStackMode OR CWSibling) = 0"
  shows "(m OR CWStackMode) AND (CWStackMode OR CWSibling) = CWStackMode"
    and "(m OR CWStackMode OR CWSibling) AND (CWStackMode OR CWSibling) = CWStackMode OR CWSibling"
    and "m OR CWStackMode \<noteq> 0" and "m OR CWStackMode OR CWSibling \<noteq> 0"
proof -
  have a: "(m OR CWStackMode) AND (CWStackMode OR CWSibling)
           = (m AND (CWStackMode OR CWSibling)) OR (CWStackMode AND (CWStackMode OR CWSibling))"
    by (simp add: bit.conj_disj_distrib2)
  show "(m OR CWStackMode) AND (CWStackMode OR CWSibling) = CWStackMode"
    unfolding a assms by (simp add: CWStackMode_def CWSibling_def)
  have b: "(m OR CWStackMode OR CWSibling) AND (CWStackMode OR CWSibling)
           = (m AND (CWStackMode OR CWSibling)) OR (CWStackMode OR CWSibling)"
    by (simp add: bit.conj_disj_distrib2)
  show "(m OR CWStackMode OR CWSibling) AND (CWStackMode OR CWSibling) = CWStackMode OR CWSibling"
    unfolding b assms by simp
  show "m OR CWStackMode \<noteq> 0" "m OR CWStackMode OR CWSibling \<noteq> 0"
    by (simp_all add: or_eq_0_iff CWStackMode_def)
qed

text \<open>Two rectangles that differ give a non-empty mask.\<close>

lemma get_window_changes_mask_nonzero:
  assumes "old \<noteq> new"
  shows "fst (get_window_changes c old new) \<noteq> 0"
proof -
  have "r_left old \<noteq> r_left new \<or> r_top old \<noteq> r_top new \<or>
        r_right old - r_left old \<noteq> r_right new - r_left new \<or>
        r_bottom old - r_top old \<noteq> r_bottom new - r_top new"
    using assms by (cases old, cases new) auto
  then show ?thesis
    by (auto simp: get_window_changes_def Let_def CWX_def CWY_def CWWidth_def CWHeight_def
          or_eq_0_iff split: if_splits)
qed

text \<open>A width or height that is pushed is never 0.\<close>

lemma pushed_size_never_zero:
  "ch_width (snd (get_window_changes no_changes old new)) \<noteq> Some 0"
  "ch_height (snd (get_window_changes no_changes old new)) \<noteq> Some 0"
  by (simp_all add: get_window_changes_def Let_def no_changes_def)

subsection \<open>The walk along the sibling chain\<close>

lemma hwnd_prev_at:
  "h \<notin> set pre \<Longrightarrow> hwnd_prev (pre @ h # post) h = last_or_0 pre"
proof (induction pre)
  case Nil
  then show ?case by (cases post) (simp_all add: last_or_0_def)
next
  case (Cons x xs)
  then show ?case by (cases xs) (auto simp: last_or_0_def)
qed

lemma find_visible_prev_0 [simp]: "find_visible_prev e 0 = 0"
  by (simp add: find_visible_prev.simps)

lemma find_visible_prev_visible:
  "GetWindowLongW_style e p AND WS_VISIBLE \<noteq> 0 \<Longrightarrow> find_visible_prev e p = p"
  by (simp add: find_visible_prev.simps)

lemma find_visible_prev_skips:
  "siblings e = pre @ mid @ rest \<Longrightarrow> distinct (pre @ mid) \<Longrightarrow>
   \<forall>q\<in>set mid. q \<noteq> 0 \<and> GetWindowLongW_style e q AND WS_VISIBLE = 0 \<Longrightarrow>
   find_visible_prev e (last_or_0 (pre @ mid)) = find_visible_prev e (last_or_0 pre)"
proof (induction mid arbitrary: rest rule: rev_induct)
  case Nil
  then show ?case by simp
next
  case (snoc q ys)
  have q: "q \<noteq> 0" "GetWindowLongW_style e q AND WS_VISIBLE = 0" "q \<notin> set (pre @ ys)"
    using snoc.prems by auto
  have "siblings e = (pre @ ys) @ q # rest" using snoc.prems(1) by simp
  then have "GetWindow_HWNDPREV e q = last_or_0 (pre @ ys)"
    using hwnd_prev_at [OF q(3)] by (simp add: GetWindow_HWNDPREV_def)
  then have "find_visible_prev e q = find_visible_prev e (last_or_0 (pre @ ys))"
    using q(1,2) by (subst find_visible_prev.simps) simp
  also have "\<dots> = find_visible_prev e (last_or_0 pre)"
    using snoc.IH [of "q # rest"] snoc.prems by simp
  finally show ?case by (simp add: last_or_0_def)
qed

lemma no_visible_predecessor:
  assumes "siblings e = pre @ h # post" and "distinct (pre @ [h])" and "0 \<notin> set pre"
      and "\<forall>q\<in>set pre. GetWindowLongW_style e q AND WS_VISIBLE = 0"
  shows "find_visible_prev e (GetWindow_HWNDPREV e h) = 0"
proof -
  have "GetWindow_HWNDPREV e h = last_or_0 pre"
    using assms(1,2) hwnd_prev_at [of h pre post] by (simp add: GetWindow_HWNDPREV_def)
  moreover have "find_visible_prev e (last_or_0 ([] @ pre)) = find_visible_prev e (last_or_0 [])"
    using assms by (intro find_visible_prev_skips [of e "[]" pre "h # post"]) auto
  ultimately show ?thesis by (simp add: last_or_0_def)
qed

lemma nearest_visible_predecessor:
  assumes "siblings e = pre1 @ p # pre2 @ h # post" and "distinct (pre1 @ p # pre2 @ [h])"
      and "0 \<notin> set (p # pre2)"
      and "GetWindowLongW_style e p AND WS_VISIBLE \<noteq> 0"
      and "\<forall>q\<in>set pre2. GetWindowLongW_style e q AND WS_VISIBLE = 0"
  shows "find_visible_prev e (GetWindow_HWNDPREV e h) = p"
proof -
  have "h \<notin> set (pre1 @ p # pre2)" using assms(2) by auto
  then have "GetWindow_HWNDPREV e h = last_or_0 ((pre1 @ [p]) @ pre2)"
    using assms(1) hwnd_prev_at [of h "pre1 @ p # pre2" post] by (simp add: GetWindow_HWNDPREV_def)
  moreover have "find_visible_prev e (last_or_0 ((pre1 @ [p]) @ pre2))
                 = find_visible_prev e (last_or_0 (pre1 @ [p]))"
    using assms by (intro find_visible_prev_skips [of e "pre1 @ [p]" pre2 "h # post"]) auto
  ultimately show ?thesis
    using assms(4) by (simp add: last_or_0_def find_visible_prev_visible)
qed

lemma whole_window_changes_above:
  assumes "find_visible_prev e (GetWindow_HWNDPREV e (hwndSelf (wnd s))) = 0"
  shows "ch_stack_mode (snd (snd (whole_window_changes e s True))) = Some Above"
    and "ch_sibling (snd (snd (whole_window_changes e s True))) = None"
    and "fst (snd (whole_window_changes e s True)) AND (CWStackMode OR CWSibling) = CWStackMode"
  using assms
  by (simp_all add: whole_window_changes_def Let_def split_def get_window_changes_stack_fields
        no_changes_def stack_bits(1) [OF get_window_changes_no_stack_bits])

lemma whole_window_changes_below:
  assumes "find_visible_prev e (GetWindow_HWNDPREV e (hwndSelf (wnd s))) = p" and "p \<noteq> 0"
  shows "ch_stack_mode (snd (snd (whole_window_changes e s True))) = Some Below"
    and "ch_sibling (snd (snd (whole_window_changes e s True)))
           = Some (X11DRV_get_whole_window e p)"
    and "fst (snd (whole_window_changes e s True)) AND (CWStackMode OR CWSibling)
           = CWStackMode OR CWSibling"
  using assms
  by (simp_all add: whole_window_changes_def Let_def split_def get_window_changes_stack_fields
        stack_bits(2) [OF get_window_changes_no_stack_bits])

lemma whole_window_changes_mask_nonzero:
  "fst (snd (whole_window_changes e s True)) \<noteq> 0"
  by (simp add: whole_window_changes_def Let_def split_def
        stack_bits(3,4) [OF get_window_changes_no_stack_bits])

lemma sync_whole_last_call:
  "last (xlog (snd (X11DRV_sync_whole_window_position e s True)))
     = (if is_window_top_level e (wnd s) then XReconfigureWMWindow else XConfigureWindow)
         (whole_window (drv s))
         (fst (snd (whole_window_changes e s True)))
         (snd (snd (whole_window_changes e s True)))"
  using whole_window_changes_mask_nonzero [of e s]
  by (simp add: X11DRV_sync_whole_window_position_def Let_def split_def set_size_hints_def)

subsection \<open>Size hints at the creation of the whole window\<close>







subsection \<open>Creation\<close>


lemma parent_initial [simp]: "parent (wnd (create_initial_state cs ws)) = parent (w_wnd ws)"
  by (simp add: create_initial_state_def Let_def)

lemma clamp_idem: "clamp_create_size (clamp_create_size cs) = clamp_create_size cs"
  by (simp add: clamp_create_size_def Let_def word_sless_alt)



lemma create_window_succeeds:
  assumes "HeapAlloc_ok ce" and "parent (w_wnd ws) \<noteq> 0"
      and "fst (create_whole_window e (create_initial_state (clamp_create_size cs) ws)) \<noteq> 0"
      and "fst (create_client_window e
             (snd (create_whole_window e (create_initial_state (clamp_create_size cs) ws)))) \<noteq> 0"
      and "\<not> HOOK_IsHooked_CBT ce" and "\<forall>n. window_alive ce n"
      and "WM_NCCREATE_result ce \<noteq> 0" and "WM_CREATE_result ce \<noteq> - 1"
  shows "fst (X11DRV_CreateWindow e ce cs ws)"
  using assms
  by (simp add: X11DRV_CreateWindow_def create_window_after_peers_def
        create_window_messages_def Let_def split_def)

subsection \<open>The size hints in force after creation\<close>

lemma last_size_hints_append:
  "last_size_hints (xs @ ys) =
     (case last_size_hints ys of Some h \<Rightarrow> Some h | None \<Rightarrow> last_size_hints xs)"
  by (induction xs) (auto split: option.splits)

lemma hints_free_cursor [simp]:
  "last_size_hints (xlog (free_cursor attr s)) = last_size_hints (xlog s)"
  by (simp add: free_cursor_def last_size_hints_append split: option.split)

lemma hints_destroy_icon_window [simp]:
  "last_size_hints (xlog (destroy_icon_window s)) = last_size_hints (xlog s)"
  by (simp add: xlog_destroy_icon_window last_size_hints_append)

lemma hints_set_icon_hints [simp]:
  "last_size_hints (xlog (fst (set_icon_hints e s h))) = last_size_hints (xlog s)"
  by (simp add: set_icon_hints_def Let_def split_def create_icon_window_def
        last_size_hints_append)

lemma hints_sync_window_style [simp]:
  "last_size_hints (xlog (sync_window_style e s)) = last_size_hints (xlog s)"
  by (simp add: sync_window_style_def Let_def split_def last_size_hints_append)

lemma hints_sync_client [simp]:
  "last_size_hints (xlog (snd (X11DRV_sync_client_window_position e s))) = last_size_hints (xlog s)"
  by (simp add: X11DRV_sync_client_window_position_def Let_def split_def last_size_hints_append)

lemma hints_register [simp]:
  "last_size_hints (xlog (X11DRV_register_window s)) = last_size_hints (xlog s)"
  by (simp add: X11DRV_register_window_def last_size_hints_append)

lemma hints_create_client_window [simp]:
  "last_size_hints (xlog (snd (create_client_window e s))) = last_size_hints (xlog s)"
  by (simp add: create_client_window_def Let_def last_size_hints_append)

lemma hints_destroy_window [simp]:
  "last_size_hints (w_log (snd (X11DRV_DestroyWindow ws))) = last_size_hints (w_log ws)"
  by (simp add: X11DRV_DestroyWindow_def Let_def with_data_def last_size_hints_append
        split: option.split)

lemma hints_create_failed [simp]:
  "last_size_hints (w_log (snd (snd (create_failed cs s)))) = last_size_hints (xlog s)"
  by (simp add: create_failed_def leave_def)

lemma hints_create_window_messages [simp]:
  "last_size_hints (w_log (snd (snd (create_window_messages e ce cs s)))) = last_size_hints (xlog s)"
  by (simp add: create_window_messages_def Let_def leave_def last_size_hints_append)



lemma wnd_set_icon_hints [simp]: "wnd (fst (set_icon_hints e s h)) = wnd s"
  by (simp add: set_icon_hints_def Let_def split_def create_icon_window_def)

lemma whole_set_icon_hints [simp]:
  "whole_rect (drv (fst (set_icon_hints e s h))) = whole_rect (drv s)"
  "whole_window (drv (fst (set_icon_hints e s h))) = whole_window (drv s)"
  by (simp_all add: set_icon_hints_def Let_def split_def create_icon_window_def
        destroy_icon_window_def)

lemma wnd_set_size_hints [simp]: "wnd (set_size_hints e s) = wnd s"
  by (simp add: set_size_hints_def)

lemma drv_set_size_hints [simp]: "drv (set_size_hints e s) = drv s"
  by (simp add: set_size_hints_def)

lemma wnd_set_wm_hints [simp]: "wnd (set_wm_hints e s) = wnd s"
  by (simp add: set_wm_hints_def Let_def split_def)

lemma whole_set_wm_hints [simp]:
  "whole_rect (drv (set_wm_hints e s)) = whole_rect (drv s)"
  "whole_window (drv (set_wm_hints e s)) = whole_window (drv s)"
  by (simp_all add: set_wm_hints_def Let_def split_def)



lemma wnd_create_client_window [simp]: "wnd (snd (create_client_window e s)) = wnd s"
  by (simp add: create_client_window_def Let_def)

lemma whole_create_client_window [simp]:
  "whole_rect (drv (snd (create_client_window e s))) = whole_rect (drv s)"
  "whole_window (drv (snd (create_client_window e s))) = whole_window (drv s)"
  by (simp_all add: create_client_window_def Let_def)








lemma window_to_X_rect_rects [simp]:
  "X11DRV_window_to_X_rect e (win\<lparr>rectWindow := a, rectClient := b\<rparr>) R
     = X11DRV_window_to_X_rect e win R"
  by (simp add: X11DRV_window_to_X_rect_def window_to_X_adjusted_def)



lemma is_window_managed_rects [simp]:
  "is_window_managed e (win\<lparr>rectWindow := a, rectClient := b\<rparr>) = is_window_managed e win"
  by (simp add: is_window_managed_def)






subsection \<open>The first calls of a creation\<close>

lemma starts_with_append [simp]: "starts_with p l \<Longrightarrow> starts_with p (l @ r)"
proof -
  assume a: "starts_with p l"
  hence "length (take (length p) l) = length p" by (simp add: starts_with_def)
  hence "length p \<le> length l" by simp
  with a show ?thesis by (simp add: starts_with_def)
qed

lemma starts_with_self [simp]: "starts_with p p"
  by (simp add: starts_with_def)

lemma starts_free_cursor: "starts_with p (xlog s) \<Longrightarrow> starts_with p (xlog (free_cursor attr s))"
  by (simp add: free_cursor_def split: option.split)

lemma starts_set_icon_hints:
  "starts_with p (xlog s) \<Longrightarrow> starts_with p (xlog (fst (set_icon_hints e s h)))"
  by (simp add: set_icon_hints_def Let_def split_def xlog_destroy_icon_window
        create_icon_window_def)

lemma starts_set_wm_hints:
  "starts_with p (xlog s) \<Longrightarrow> starts_with p (xlog (set_wm_hints e s))"
  by (simp add: set_wm_hints_def Let_def split_def set_size_hints_def starts_set_icon_hints)

lemma starts_sync_window_style:
  "starts_with p (xlog s) \<Longrightarrow> starts_with p (xlog (sync_window_style e s))"
  by (simp add: sync_window_style_def Let_def split_def starts_free_cursor)

lemma starts_sync_whole:
  "starts_with p (xlog s) \<Longrightarrow>
   starts_with p (xlog (snd (X11DRV_sync_whole_window_position e s z)))"
  by (simp add: X11DRV_sync_whole_window_position_def Let_def split_def set_size_hints_def)

lemma starts_sync_client:
  "starts_with p (xlog s) \<Longrightarrow>
   starts_with p (xlog (snd (X11DRV_sync_client_window_position e s)))"
  by (simp add: X11DRV_sync_client_window_position_def Let_def split_def)

lemma starts_register:
  "starts_with p (xlog s) \<Longrightarrow> starts_with p (xlog (X11DRV_register_window s))"
  by (simp add: X11DRV_register_window_def)

lemma starts_create_client_window:
  "starts_with p (xlog s) \<Longrightarrow> starts_with p (xlog (snd (create_client_window e s)))"
  by (simp add: create_client_window_def Let_def)

lemma starts_destroy_window:
  "starts_with p (w_log ws) \<Longrightarrow> starts_with p (w_log (snd (X11DRV_DestroyWindow ws)))"
  by (simp add: X11DRV_DestroyWindow_def Let_def with_data_def xlog_destroy_icon_window
        split: option.split)

lemma starts_create_failed:
  "starts_with p (xlog s) \<Longrightarrow> starts_with p (w_log (snd (snd (create_failed cs s))))"
  by (simp add: create_failed_def starts_destroy_window leave_def)

lemma starts_create_window_messages:
  "starts_with p (xlog s) \<Longrightarrow>
   starts_with p (w_log (snd (snd (create_window_messages e ce cs s))))"
  by (simp add: create_window_messages_def Let_def leave_def starts_sync_window_style
        starts_sync_client starts_register)

lemma starts_create_window_after_peers:
  "starts_with p (xlog s) \<Longrightarrow>
   starts_with p (w_log (snd (snd (create_window_after_peers e ce cs s))))"
  by (simp add: create_window_after_peers_def Let_def leave_def starts_create_failed
        starts_create_window_messages starts_sync_whole)

text \<open>The first call of \<open>create_whole_window\<close> is the creation of the whole window.\<close>

lemma starts_create_whole_window_attr:
  "starts_with
     (xlog s @
      [XCreateWindow (X11DRV_get_client_window e (parent (wnd s)))
         (r_left (X11DRV_window_to_X_rect e (wnd s) (rectWindow (wnd s))))
         (r_top (X11DRV_window_to_X_rect e (wnd s) (rectWindow (wnd s))))
         (nonzero_or_1 (r_right (X11DRV_window_to_X_rect e (wnd s) (rectWindow (wnd s)))
                        - r_left (X11DRV_window_to_X_rect e (wnd s) (rectWindow (wnd s)))))
         (nonzero_or_1 (r_bottom (X11DRV_window_to_X_rect e (wnd s) (rectWindow (wnd s)))
                        - r_top (X11DRV_window_to_X_rect e (wnd s) (rectWindow (wnd s)))))
         (snd (snd (get_window_attributes e (wnd s) no_attributes))
            OR CWBitGravity OR CWWinGravity OR CWBackingStore)
         ((fst (snd (get_window_attributes e (wnd s) no_attributes)))
            \<lparr>attr_bit_gravity := Some ForgetGravity,
               attr_win_gravity := Some NorthWestGravity,
               attr_backing_store := Some NotUseful\<rparr>)])
     (xlog (snd (create_whole_window e s)))"
  by (simp add: create_whole_window_def Let_def split_def starts_set_wm_hints
        starts_free_cursor issue_def)

lemma starts_create_whole_window:
  "\<exists>mask attr.
     starts_with
       (xlog s @
        [XCreateWindow (X11DRV_get_client_window e (parent (wnd s)))
           (r_left (X11DRV_window_to_X_rect e (wnd s) (rectWindow (wnd s))))
           (r_top (X11DRV_window_to_X_rect e (wnd s) (rectWindow (wnd s))))
           (nonzero_or_1 (r_right (X11DRV_window_to_X_rect e (wnd s) (rectWindow (wnd s)))
                          - r_left (X11DRV_window_to_X_rect e (wnd s) (rectWindow (wnd s)))))
           (nonzero_or_1 (r_bottom (X11DRV_window_to_X_rect e (wnd s) (rectWindow (wnd s)))
                          - r_top (X11DRV_window_to_X_rect e (wnd s) (rectWindow (wnd s)))))
           mask attr])
       (xlog (snd (create_whole_window e s)))"
  using starts_create_whole_window_attr by blast

text \<open>The creation parameters that \<open>X11DRV_CreateWindow\<close> hands back.\<close>

lemma returned_cs_messages: "fst (snd (create_window_messages e ce cs s)) = cs"
  by (simp add: create_window_messages_def Let_def)

lemma returned_cs_after_peers:
  "fst (snd (create_window_after_peers e ce cs s))
     = (if \<not> (HOOK_IsHooked_CBT ce \<and> HOOK_CallHooks_result ce \<noteq> 0) \<and>
           (cs_style cs AND WS_THICKFRAME \<noteq> 0 \<or> cs_style cs AND (WS_POPUP OR WS_CHILD) = 0)
        then fit_minmax ce cs else cs)"
  by (simp add: create_window_after_peers_def Let_def returned_cs_messages create_failed_def)

text \<open>
  With the driver data allocated and a parent, the first call of \<open>X11DRV_CreateWindow\<close>
  creates the whole window, with the rectangle of the size after the two size checks.
\<close>

lemma create_window_first_call:
  assumes heap: "HeapAlloc_ok ce" and par: "parent (w_wnd ws) \<noteq> 0"
      and R: "R = X11DRV_window_to_X_rect e (w_wnd ws)
                    (SetRect (cs_x cs) (cs_y cs)
                       (cs_x cs + cs_cx (clamp_create_size cs))
                       (cs_y cs + cs_cy (clamp_create_size cs)))"
  shows "\<exists>mask attr.
           starts_with
             (w_log ws @
              [XCreateWindow (X11DRV_get_client_window e (parent (w_wnd ws)))
                 (r_left R) (r_top R)
                 (nonzero_or_1 (r_right R - r_left R))
                 (nonzero_or_1 (r_bottom R - r_top R)) mask attr])
             (w_log (snd (snd (X11DRV_CreateWindow e ce cs ws))))"
proof -
  let ?s = "create_initial_state (clamp_create_size cs) ws"
  have xy: "cs_x (clamp_create_size cs) = cs_x cs" "cs_y (clamp_create_size cs) = cs_y cs"
    by (simp_all add: clamp_create_size_def Let_def)
  have rect: "X11DRV_window_to_X_rect e (wnd ?s) (rectWindow (wnd ?s)) = R"
    by (simp add: R create_initial_state_def Let_def xy)
  have log: "xlog ?s = w_log ws"
    by (simp add: create_initial_state_def Let_def)
  from starts_create_whole_window [of ?s e]
  obtain mask attr where first:
    "starts_with
       (w_log ws @
        [XCreateWindow (X11DRV_get_client_window e (parent (w_wnd ws)))
           (r_left R) (r_top R)
           (nonzero_or_1 (r_right R - r_left R))
           (nonzero_or_1 (r_bottom R - r_top R)) mask attr])
       (xlog (snd (create_whole_window e ?s)))"
    unfolding rect log parent_initial by blast
  have "starts_with
       (w_log ws @
        [XCreateWindow (X11DRV_get_client_window e (parent (w_wnd ws)))
           (r_left R) (r_top R)
           (nonzero_or_1 (r_right R - r_left R))
           (nonzero_or_1 (r_bottom R - r_top R)) mask attr])
       (w_log (snd (snd (X11DRV_CreateWindow e ce cs ws))))"
    using heap par first
    by (simp add: X11DRV_CreateWindow_def Let_def split_def starts_create_failed
          starts_create_client_window starts_create_window_after_peers)
  thus ?thesis by blast
qed

lemma first_call_plain:
  assumes "starts_with
             (l @ [XCreateWindow p (r_left R) (r_top R)
                     (nonzero_or_1 (r_right R - r_left R))
                     (nonzero_or_1 (r_bottom R - r_top R)) m a]) L"
      and "R = SetRect x y (x + cx) (y + cy)"
  shows "starts_with (l @ [XCreateWindow p x y (nonzero_or_1 cx) (nonzero_or_1 cy) m a]) L"
  using assms by (simp add: SetRect_def)

lemma returned_cs_create_window:
  "fst (snd (X11DRV_CreateWindow e ce cs ws)) = clamp_create_size cs \<or>
   fst (snd (X11DRV_CreateWindow e ce cs ws)) = fit_minmax ce (clamp_create_size cs)"
  by (simp add: X11DRV_CreateWindow_def Let_def split_def create_failed_def
        returned_cs_after_peers)

lemma returned_cs_no_fitting:
  assumes "cs_style cs AND WS_THICKFRAME = 0" and "cs_style cs AND (WS_POPUP OR WS_CHILD) \<noteq> 0"
  shows "fst (snd (X11DRV_CreateWindow e ce cs ws)) = clamp_create_size cs"
proof -
  have "cs_style (clamp_create_size cs) = cs_style cs"
    by (simp add: clamp_create_size_def Let_def)
  with assms show ?thesis
    by (simp add: X11DRV_CreateWindow_def Let_def split_def create_failed_def
          returned_cs_after_peers)
qed

lemma clamp_create_size_explicit:
  "clamp_create_size cs
     = cs\<lparr>cs_cx := (if 65535 <s cs_cx cs then 65535 else cs_cx cs),
          cs_cy := (if 65535 <s cs_cy cs then 65535 else cs_cy cs)\<rparr>"
  by (simp add: clamp_create_size_def Let_def)

text \<open>A server that never refuses a window, and no veto: the creation succeeds.\<close>

lemma fst_create_whole_window_any:
  "fst (create_whole_window e s) =
     XCreateWindow_result e (X11DRV_get_client_window e (parent (wnd s)))
       (r_left (X11DRV_window_to_X_rect e (wnd s) (rectWindow (wnd s))))
       (r_top (X11DRV_window_to_X_rect e (wnd s) (rectWindow (wnd s))))
       (nonzero_or_1 (r_right (X11DRV_window_to_X_rect e (wnd s) (rectWindow (wnd s)))
                      - r_left (X11DRV_window_to_X_rect e (wnd s) (rectWindow (wnd s)))))
       (nonzero_or_1 (r_bottom (X11DRV_window_to_X_rect e (wnd s) (rectWindow (wnd s)))
                      - r_top (X11DRV_window_to_X_rect e (wnd s) (rectWindow (wnd s)))))"
  by (simp add: create_whole_window_def Let_def split_def)

lemma create_window_succeeds_always:
  assumes heap: "HeapAlloc_ok ce"
      and server: "\<forall>p x y w h. XCreateWindow_result e p x y w h \<noteq> 0"
      and hook: "\<not> HOOK_IsHooked_CBT ce" and alive: "\<forall>n. window_alive ce n"
      and nc: "WM_NCCREATE_result ce \<noteq> 0" and cr: "WM_CREATE_result ce \<noteq> - 1"
  shows "fst (X11DRV_CreateWindow e ce cs ws)"
proof (cases "parent (w_wnd ws) = 0")
  case True
  with heap show ?thesis
    by (simp add: X11DRV_CreateWindow_def Let_def)
next
  case False
  have whole: "fst (create_whole_window e s) \<noteq> 0" for s
    unfolding fst_create_whole_window_any using server by blast
  have client: "fst (create_client_window e s) \<noteq> 0" for s
    using server by (simp add: create_client_window_def Let_def)
  from heap False whole client hook alive nc cr show ?thesis
    by (intro create_window_succeeds) simp_all
qed

section \<open>Properties\<close>

subsection \<open>Decoration policy\<close>

text \<open>
  C1 (as amended). A window whose style has \<open>WS_CHILD\<close> or whose extended style has
  \<open>WS_EX_TOOLWINDOW\<close> is not managed, whatever its other style bits, provided the
  tray-window flag \<open>WS_EX_TRAYWINDOW\<close> is clear: the source tests the tray flag first
  ("tray window is always managed").
\<close>

theorem is_window_managed_child_or_tool:
  assumes "dwStyle win AND WS_CHILD \<noteq> 0 \<or> dwExStyle win AND WS_EX_TOOLWINDOW \<noteq> 0"
      and "dwExStyle win AND WS_EX_TRAYWINDOW = 0"
  shows "\<not> is_window_managed e win"
  using assms by (auto simp: is_window_managed_def)

theorem is_window_managed_child_or_tool_witness:
  "\<not> is_window_managed test_env
       (test_wnd\<lparr>dwStyle := WS_CHILD OR WS_THICKFRAME OR WS_CAPTION\<rparr>)
   \<and> \<not> is_window_managed test_env
       (test_wnd\<lparr>dwStyle := WS_CAPTION OR WS_THICKFRAME, dwExStyle := WS_EX_TOOLWINDOW\<rparr>)"
  using is_window_managed_child_or_tool
          [of "test_wnd\<lparr>dwStyle := WS_CHILD OR WS_THICKFRAME OR WS_CAPTION\<rparr>" test_env]
        is_window_managed_child_or_tool
          [of "test_wnd\<lparr>dwStyle := WS_CAPTION OR WS_THICKFRAME, dwExStyle := WS_EX_TOOLWINDOW\<rparr>"
              test_env]
  by (simp add: test_wnd_def WS_CHILD_def WS_THICKFRAME_def WS_CAPTION_def
        WS_EX_TOOLWINDOW_def WS_EX_TRAYWINDOW_def)

text \<open>
  C1 as stated fails: in managed mode a child window that carries the tray-window flag is
  classified as managed.
\<close>

theorem child_tray_window_is_managed:
  "dwStyle (test_wnd\<lparr>dwStyle := WS_CHILD, dwExStyle := WS_EX_TRAYWINDOW\<rparr>) AND WS_CHILD \<noteq> 0
   \<and> is_window_managed test_env (test_wnd\<lparr>dwStyle := WS_CHILD, dwExStyle := WS_EX_TRAYWINDOW\<rparr>)"
  by (simp add: is_window_managed_def test_env_def test_wnd_def WS_CHILD_def WS_EX_TRAYWINDOW_def)

subsection \<open>Coordinate translation\<close>

text \<open>
  C2. For a window flagged as managed and a non-empty rectangle \<open>R\<close>, translating to X
  coordinates and back gives \<open>R\<close> again when the first translation does not hit the
  degenerate-rectangle fix; the second translation then does not hit it either. The
  metrics calculator \<open>AdjustWindowRectEx\<close> is outside the source file: it is assumed to
  add to a rectangle the margins it gives the zero rectangle for the same styles.
\<close>

theorem window_rect_round_trip:
  assumes managed: "dwExStyle win AND WS_EX_MANAGED \<noteq> 0"
      and nonempty: "\<not> IsRectEmpty R"
      and additive:
        "\<And>rc. AdjustWindowRectEx e rc (dwStyle win AND NOT (WS_HSCROLL OR WS_VSCROLL)) False
                 (dwExStyle win)
               = rect_add rc (AdjustWindowRectEx e zero_rect
                                (dwStyle win AND NOT (WS_HSCROLL OR WS_VSCROLL)) False
                                (dwExStyle win))"
      and no_clamp: "\<not> IsRectEmpty (window_to_X_adjusted e win R)"
  shows "X11DRV_X_to_window_rect e win (X11DRV_window_to_X_rect e win R) = R
         \<and> \<not> IsRectEmpty (X_to_window_adjusted e win (X11DRV_window_to_X_rect e win R))"
proof -
  let ?a = "window_to_X_adjusted e win R"
  have fix1: "fix_degenerate ?a = ?a"
    using no_clamp by (simp add: fix_degenerate_def IsRectEmpty_def Let_def)
  have to_x: "X11DRV_window_to_X_rect e win R = ?a"
    using managed nonempty fix1 by (simp add: X11DRV_window_to_X_rect_def)
  have inv: "X_to_window_adjusted e win ?a = R"
    unfolding X_to_window_adjusted_def additive [of ?a]
    by (simp add: window_to_X_adjusted_def rect_add_def Let_def)
  have fix2: "fix_degenerate R = R"
    using nonempty by (simp add: fix_degenerate_def IsRectEmpty_def Let_def)
  show ?thesis
    using managed no_clamp nonempty inv fix2
    by (simp add: X11DRV_X_to_window_rect_def to_x)
qed

theorem window_rect_round_trip_witness:
  "X11DRV_window_to_X_rect test_env managed_wnd rect_10_10_210_110
     = \<lparr>r_left = 14, r_top = 33, r_right = 206, r_bottom = 106\<rparr>
   \<and> X11DRV_X_to_window_rect test_env managed_wnd
       (X11DRV_window_to_X_rect test_env managed_wnd rect_10_10_210_110) = rect_10_10_210_110"
  using window_rect_round_trip [of managed_wnd rect_10_10_210_110 test_env]
  by (simp add: managed_wnd_def test_wnd_def test_env_def rect_10_10_210_110_def
        WS_EX_MANAGED_def IsRectEmpty_def window_to_X_adjusted_def zero_rect_def
        rect_add_def test_margins_def X11DRV_window_to_X_rect_def fix_degenerate_def
        word_sle_eq)

subsection \<open>Change sets\<close>

text \<open>
  C3 (the code at the failing input). From the old rectangle (0,0,10,10) to the new
  rectangle (0,0,0,-5), which has width 0, \<open>get_window_changes\<close> replaces the zero width
  by 1 but pushes the height -5 unchanged: only a value equal to zero is replaced
  (\<open>if (!(changes->height = ...))\<close>), while \<open>create_client_window\<close> uses
  \<open>max( ..., 1 )\<close> for the same purpose.
\<close>

theorem get_window_changes_negative_height:
  "get_window_changes no_changes
     \<lparr>r_left = 0, r_top = 0, r_right = 10, r_bottom = 10\<rparr>
     \<lparr>r_left = 0, r_top = 0, r_right = 0, r_bottom = - 5\<rparr>
     = (CWWidth OR CWHeight, no_changes\<lparr>ch_width := Some 1, ch_height := Some (- 5)\<rparr>)
   \<and> (- 5 :: LONG) <s 1"
  by (simp add: get_window_changes_def word_sless_alt)

subsection \<open>Stacking order\<close>

text \<open>
  C4. Let the sibling chain be \<open>pre @ hwnd # post\<close> with distinct handles and no null
  handle before \<open>hwnd\<close>. When whole-window sync is asked for the stacking order: if no
  sibling before the window is visible, the request is \<open>Above\<close> with no sibling; if
  \<open>p\<close> is the nearest visible sibling before the window (all siblings between them are
  hidden), the request is \<open>Below\<close> with the whole window of \<open>p\<close> as sibling. The
  request is the last call the sync issues.
\<close>

theorem zorder_below_nearest_visible:
  assumes "siblings e = pre @ hwndSelf (wnd s) # post"
      and "distinct (pre @ [hwndSelf (wnd s)])" and "0 \<notin> set pre"
  shows
   "((\<forall>q\<in>set pre. GetWindowLongW_style e q AND WS_VISIBLE = 0) \<longrightarrow>
       ch_stack_mode (snd (snd (whole_window_changes e s True))) = Some Above \<and>
       ch_sibling (snd (snd (whole_window_changes e s True))) = None \<and>
       fst (snd (whole_window_changes e s True)) AND (CWStackMode OR CWSibling) = CWStackMode) \<and>
    (\<forall>pre1 p pre2.
       pre = pre1 @ p # pre2 \<and> GetWindowLongW_style e p AND WS_VISIBLE \<noteq> 0 \<and>
       (\<forall>q\<in>set pre2. GetWindowLongW_style e q AND WS_VISIBLE = 0) \<longrightarrow>
       ch_stack_mode (snd (snd (whole_window_changes e s True))) = Some Below \<and>
       ch_sibling (snd (snd (whole_window_changes e s True)))
         = Some (X11DRV_get_whole_window e p) \<and>
       fst (snd (whole_window_changes e s True)) AND (CWStackMode OR CWSibling)
         = CWStackMode OR CWSibling) \<and>
    last (xlog (snd (X11DRV_sync_whole_window_position e s True)))
      = (if is_window_top_level e (wnd s) then XReconfigureWMWindow else XConfigureWindow)
          (whole_window (drv s))
          (fst (snd (whole_window_changes e s True)))
          (snd (snd (whole_window_changes e s True)))"
proof (intro conjI impI allI)
  let ?h = "hwndSelf (wnd s)"
  { assume inv: "\<forall>q\<in>set pre. GetWindowLongW_style e q AND WS_VISIBLE = 0"
    have z: "find_visible_prev e (GetWindow_HWNDPREV e ?h) = 0"
      using assms inv by (intro no_visible_predecessor [of e pre ?h post]) auto
    show "ch_stack_mode (snd (snd (whole_window_changes e s True))) = Some Above"
         "ch_sibling (snd (snd (whole_window_changes e s True))) = None"
         "fst (snd (whole_window_changes e s True)) AND (CWStackMode OR CWSibling) = CWStackMode"
      using whole_window_changes_above [OF z] by simp_all }
  { fix pre1 p pre2
    assume a: "pre = pre1 @ p # pre2 \<and> GetWindowLongW_style e p AND WS_VISIBLE \<noteq> 0 \<and>
               (\<forall>q\<in>set pre2. GetWindowLongW_style e q AND WS_VISIBLE = 0)"
    have p: "find_visible_prev e (GetWindow_HWNDPREV e ?h) = p"
      using assms a by (intro nearest_visible_predecessor [of e pre1 p pre2 ?h post]) auto
    have nz: "p \<noteq> 0" using assms(3) a by auto
    show "ch_stack_mode (snd (snd (whole_window_changes e s True))) = Some Below"
         "ch_sibling (snd (snd (whole_window_changes e s True)))
            = Some (X11DRV_get_whole_window e p)"
         "fst (snd (whole_window_changes e s True)) AND (CWStackMode OR CWSibling)
            = CWStackMode OR CWSibling"
      using whole_window_changes_below [OF p nz] by simp_all }
  show "last (xlog (snd (X11DRV_sync_whole_window_position e s True)))
      = (if is_window_top_level e (wnd s) then XReconfigureWMWindow else XConfigureWindow)
          (whole_window (drv s))
          (fst (snd (whole_window_changes e s True)))
          (snd (snd (whole_window_changes e s True)))"
    by (rule sync_whole_last_call)
qed

text \<open>
  The example of the claim: siblings 10 (visible), 11 (hidden), 2 (the window); the
  placement of window 2 is below the peer 510 of window 10.
\<close>

theorem zorder_below_nearest_visible_witness:
  "ch_stack_mode (snd (snd (whole_window_changes test_env
      \<lparr>wnd = test_wnd, drv = test_data, xlog = []\<rparr> True))) = Some Below \<and>
   ch_sibling (snd (snd (whole_window_changes test_env
      \<lparr>wnd = test_wnd, drv = test_data, xlog = []\<rparr> True))) = Some 510"
proof -
  let ?s = "\<lparr>wnd = test_wnd, drv = test_data, xlog = []\<rparr>"
  have chain: "siblings test_env = [10, 11] @ hwndSelf (wnd ?s) # []"
    by (simp add: test_env_def test_wnd_def)
  have dist: "distinct ([10, 11] @ [hwndSelf (wnd ?s)])"
    by (simp add: test_wnd_def)
  have nonnull: "(0 :: HWND) \<notin> set [10, 11]"
    by simp
  have vis: "[10, 11] = [] @ 10 # [11] \<and> GetWindowLongW_style test_env 10 AND WS_VISIBLE \<noteq> 0 \<and>
             (\<forall>q\<in>set [11]. GetWindowLongW_style test_env q AND WS_VISIBLE = 0)"
    by (simp add: test_env_def WS_VISIBLE_def)
  have peer: "X11DRV_get_whole_window test_env 10 = 510"
    by (simp add: X11DRV_get_whole_window_def test_env_def sibling_data_def)
  from zorder_below_nearest_visible [OF chain dist nonnull]
  have "\<forall>pre1 p pre2.
       [10, 11] = pre1 @ p # pre2 \<and> GetWindowLongW_style test_env p AND WS_VISIBLE \<noteq> 0 \<and>
       (\<forall>q\<in>set pre2. GetWindowLongW_style test_env q AND WS_VISIBLE = 0) \<longrightarrow>
       ch_stack_mode (snd (snd (whole_window_changes test_env ?s True))) = Some Below \<and>
       ch_sibling (snd (snd (whole_window_changes test_env ?s True)))
         = Some (X11DRV_get_whole_window test_env p) \<and>
       fst (snd (whole_window_changes test_env ?s True)) AND (CWStackMode OR CWSibling)
         = CWStackMode OR CWSibling"
    by (rule conjunct2 [THEN conjunct1])
  from this [rule_format, of "[]" 10 "[11]", OF vis] show ?thesis
    by (simp add: peer)
qed

subsection \<open>Icon hints\<close>



subsection \<open>Size hints\<close>




subsection \<open>Mapping of the client window\<close>

text \<open>
  C7. In \<open>X11DRV_sync_client_window_position\<close>: when the client window was to be
  mapped (not minimized, old rectangle not empty) and the new rectangle is empty, the
  calls are the flush, the unmap, the reconfiguration; when the window is not minimized,
  the old rectangle is empty and the new one is not, they are the flush, the
  reconfiguration, the map.
\<close>

theorem client_sync_map_order:
  "(is_client_window_mapped s \<and> IsRectEmpty (new_client_rect s) \<longrightarrow>
      xlog (snd (X11DRV_sync_client_window_position e s))
        = xlog s @ [XSync, XUnmapWindow (client_window (drv s)),
                    XConfigureWindow (client_window (drv s))
                      (fst (get_window_changes no_changes (client_rect (drv s)) (new_client_rect s)))
                      (snd (get_window_changes no_changes (client_rect (drv s)) (new_client_rect s)))]) \<and>
   (dwStyle (wnd s) AND WS_MINIMIZE = 0 \<and> IsRectEmpty (client_rect (drv s)) \<and>
    \<not> IsRectEmpty (new_client_rect s) \<longrightarrow>
      xlog (snd (X11DRV_sync_client_window_position e s))
        = xlog s @ [XSync,
                    XConfigureWindow (client_window (drv s))
                      (fst (get_window_changes no_changes (client_rect (drv s)) (new_client_rect s)))
                      (snd (get_window_changes no_changes (client_rect (drv s)) (new_client_rect s))),
                    XMapWindow (client_window (drv s))])"
proof (intro conjI impI)
  let ?old = "client_rect (drv s)" and ?new = "new_client_rect s"
  let ?mc = "get_window_changes no_changes ?old ?new"
  { assume a: "is_client_window_mapped s \<and> IsRectEmpty ?new"
    then have "?old \<noteq> ?new" by (auto simp: is_client_window_mapped_def)
    then have m: "fst ?mc \<noteq> 0" by (rule get_window_changes_mask_nonzero)
    show "xlog (snd (X11DRV_sync_client_window_position e s))
        = xlog s @ [XSync, XUnmapWindow (client_window (drv s)),
                    XConfigureWindow (client_window (drv s)) (fst ?mc) (snd ?mc)]"
      using a m
      by (simp add: X11DRV_sync_client_window_position_def Let_def split_def
            is_client_window_mapped_def) }
  { assume a: "dwStyle (wnd s) AND WS_MINIMIZE = 0 \<and> IsRectEmpty ?old \<and> \<not> IsRectEmpty ?new"
    then have "?old \<noteq> ?new" by auto
    then have m: "fst ?mc \<noteq> 0" by (rule get_window_changes_mask_nonzero)
    show "xlog (snd (X11DRV_sync_client_window_position e s))
        = xlog s @ [XSync, XConfigureWindow (client_window (drv s)) (fst ?mc) (snd ?mc),
                    XMapWindow (client_window (drv s))]"
      using a m
      by (simp add: X11DRV_sync_client_window_position_def Let_def split_def
            is_client_window_mapped_def) }
qed

text \<open>
  The example of the claim: from (0,0,100,100) to (0,0,100,0) the client window 501 is
  unmapped before it is reconfigured (to the height 1); from (0,0,100,0) to
  (0,0,100,100) it is mapped after it is reconfigured.
\<close>

theorem client_sync_map_order_witness:
  "xlog (snd (X11DRV_sync_client_window_position test_env
      \<lparr>wnd = test_wnd\<lparr>rectClient := \<lparr>r_left = 0, r_top = 0, r_right = 100, r_bottom = 0\<rparr>\<rparr>,
       drv = test_data, xlog = []\<rparr>))
     = [XSync, XUnmapWindow 501,
        XConfigureWindow 501 CWHeight (no_changes\<lparr>ch_height := Some 1\<rparr>)] \<and>
   xlog (snd (X11DRV_sync_client_window_position test_env
      \<lparr>wnd = test_wnd\<lparr>rectClient := \<lparr>r_left = 0, r_top = 0, r_right = 100, r_bottom = 100\<rparr>\<rparr>,
       drv = test_data\<lparr>client_rect := \<lparr>r_left = 0, r_top = 0, r_right = 100, r_bottom = 0\<rparr>\<rparr>,
       xlog = []\<rparr>))
     = [XSync, XConfigureWindow 501 CWHeight (no_changes\<lparr>ch_height := Some 100\<rparr>),
        XMapWindow 501]"
  using client_sync_map_order
          [of "\<lparr>wnd = test_wnd\<lparr>rectClient := \<lparr>r_left = 0, r_top = 0, r_right = 100, r_bottom = 0\<rparr>\<rparr>,
                drv = test_data, xlog = []\<rparr>" test_env]
        client_sync_map_order
          [of "\<lparr>wnd = test_wnd\<lparr>rectClient := \<lparr>r_left = 0, r_top = 0, r_right = 100, r_bottom = 100\<rparr>\<rparr>,
                drv = test_data\<lparr>client_rect := \<lparr>r_left = 0, r_top = 0, r_right = 100, r_bottom = 0\<rparr>\<rparr>,
                xlog = []\<rparr>" test_env]
  by (simp add: is_client_window_mapped_def new_client_rect_def OffsetRect_def IsRectEmpty_def
        test_wnd_def test_data_def WS_MINIMIZE_def get_window_changes_def word_sle_eq)

subsection \<open>Teardown\<close>

text \<open>
  C8 (as amended). For a window whose driver data has a whole window,
  \<open>X11DRV_DestroyWindow\<close> issues, in this order: the flush; the removal of the two
  context entries (whole and client window); the destruction of the whole window (no
  call destroys the client window); the removal and destruction of the icon window, if
  there is one; the deletion of the owned icon bitmap and mask, if there are any; the
  release of the driver data. It returns \<open>TRUE\<close> and leaves the window without driver
  data.
\<close>

theorem destroy_window_order:
  assumes "w_data ws = Some d" and "whole_window d \<noteq> 0"
  shows "fst (X11DRV_DestroyWindow ws) = True \<and>
         w_data (snd (X11DRV_DestroyWindow ws)) = None \<and>
         w_log (snd (X11DRV_DestroyWindow ws)) =
           w_log ws @
           [XSync, XDeleteContext (whole_window d), XDeleteContext (client_window d),
            XDestroyWindow (whole_window d)] @
           (if icon_window d = 0 then []
            else [XDeleteContext (icon_window d), XDestroyWindow (icon_window d),
                  RemovePropA (hwndSelf (w_wnd ws)) icon_window_atom]) @
           (if hWMIconBitmap d = 0 then [] else [DeleteObject (hWMIconBitmap d)]) @
           (if hWMIconMask d = 0 then [] else [DeleteObject (hWMIconMask d)]) @
           [HeapFree_data]"
  using assms
  by (simp add: X11DRV_DestroyWindow_def Let_def with_data_def xlog_destroy_icon_window)

theorem destroy_window_order_witness:
  "w_log (snd (X11DRV_DestroyWindow
      \<lparr>w_wnd = test_wnd, w_data = Some test_data_icons, w_log = []\<rparr>))
     = [XSync, XDeleteContext 500, XDeleteContext 501, XDestroyWindow 500,
        XDeleteContext 502, XDestroyWindow 502, RemovePropA 2 icon_window_atom,
        DeleteObject 60, DeleteObject 61, HeapFree_data]"
  using destroy_window_order
          [of "\<lparr>w_wnd = test_wnd, w_data = Some test_data_icons, w_log = []\<rparr>" test_data_icons]
  by (simp add: test_data_icons_def test_data_def test_wnd_def)

text \<open>
  C8 as stated fails: the whole window 500 is destroyed first; the icon window 502 is
  destroyed and the bitmaps 60 and 61 are deleted after it.
\<close>

theorem whole_window_destroyed_before_icon:
  "first_then (XDestroyWindow 500) (XDestroyWindow 502)
     (w_log (snd (X11DRV_DestroyWindow
        \<lparr>w_wnd = test_wnd, w_data = Some test_data_icons, w_log = []\<rparr>))) \<and>
   first_then (XDestroyWindow 500) (DeleteObject 60)
     (w_log (snd (X11DRV_DestroyWindow
        \<lparr>w_wnd = test_wnd, w_data = Some test_data_icons, w_log = []\<rparr>))) \<and>
   first_then (XDestroyWindow 500) (DeleteObject 61)
     (w_log (snd (X11DRV_DestroyWindow
        \<lparr>w_wnd = test_wnd, w_data = Some test_data_icons, w_log = []\<rparr>)))"
  by (simp add: X11DRV_DestroyWindow_def Let_def with_data_def destroy_icon_window_def
        issue_def test_data_icons_def test_data_def test_wnd_def)

subsection \<open>Creation\<close>



text \<open>
  C10. For every creation request, \<open>X11DRV_CreateWindow\<close> replaces a width or a height
  above 65535 by exactly 65535 in the creation parameters and changes nothing else; a
  request with both dimensions at or below 65535 is left as it is by this check. The
  replacement comes before everything else the function does:

  \<^item> when the driver data cannot be allocated, the function returns \<open>FALSE\<close> with the
    creation parameters already replaced and the window untouched;
  \<^item> when the data is allocated and the window has a parent, the first native call that
    the function adds to the log creates the whole window, before any other call, at
    the X rectangle of the request with the replaced size (for a window not marked
    managed: at the position of the request, with the replaced width and height, a
    zero becoming 1);
  \<^item> the creation parameters handed back are those with the replaced size, or these
    fitted to the answer of \<open>WM_GETMINMAXINFO\<close>, which is asked only for a style with a
    thick frame or neither popup nor child;
  \<^item> the function goes on as for the request with the replaced size, so the check
    itself never makes it fail: with the allocation succeeding, a server that never
    refuses a window and no hook or message vetoing, the result is \<open>TRUE\<close> for every
    request.
\<close>

theorem create_window_clamps_size:
  "let cx = (if 65535 <s cs_cx cs then 65535 else cs_cx cs);
       cy = (if 65535 <s cs_cy cs then 65535 else cs_cy cs);
       clamped = cs\<lparr>cs_cx := cx, cs_cy := cy\<rparr>;
       R = X11DRV_window_to_X_rect e (w_wnd ws)
             (SetRect (cs_x cs) (cs_y cs) (cs_x cs + cx) (cs_y cs + cy));
       parent_win = X11DRV_get_client_window e (parent (w_wnd ws));
       result = X11DRV_CreateWindow e ce cs ws
   in (\<not> HeapAlloc_ok ce \<longrightarrow> result = (False, clamped, ws)) \<and>
      (HeapAlloc_ok ce \<and> parent (w_wnd ws) \<noteq> 0 \<longrightarrow>
         (\<exists>mask attr.
            starts_with
              (w_log ws @
               [XCreateWindow parent_win (r_left R) (r_top R)
                  (nonzero_or_1 (r_right R - r_left R))
                  (nonzero_or_1 (r_bottom R - r_top R)) mask attr])
              (w_log (snd (snd result))))) \<and>
      (HeapAlloc_ok ce \<and> parent (w_wnd ws) \<noteq> 0 \<and> dwExStyle (w_wnd ws) AND WS_EX_MANAGED = 0 \<longrightarrow>
         (\<exists>mask attr.
            starts_with
              (w_log ws @
               [XCreateWindow parent_win (cs_x cs) (cs_y cs)
                  (nonzero_or_1 cx) (nonzero_or_1 cy) mask attr])
              (w_log (snd (snd result))))) \<and>
      (fst (snd result) = clamped \<or> fst (snd result) = fit_minmax ce clamped) \<and>
      (cs_style cs AND WS_THICKFRAME = 0 \<and> cs_style cs AND (WS_POPUP OR WS_CHILD) \<noteq> 0 \<longrightarrow>
         fst (snd result) = clamped) \<and>
      (\<not> 65535 <s cs_cx cs \<and> \<not> 65535 <s cs_cy cs \<longrightarrow> clamped = cs) \<and>
      (HeapAlloc_ok ce \<and> (\<forall>p x y w h. XCreateWindow_result e p x y w h \<noteq> 0) \<and>
       \<not> HOOK_IsHooked_CBT ce \<and> (\<forall>n. window_alive ce n) \<and>
       WM_NCCREATE_result ce \<noteq> 0 \<and> WM_CREATE_result ce \<noteq> - 1 \<longrightarrow> fst result) \<and>
      clamp_create_size cs = clamped \<and>
      result = X11DRV_CreateWindow e ce clamped ws \<and>
      rectWindow (wnd (create_initial_state (clamp_create_size cs) ws))
        = SetRect (cs_x cs) (cs_y cs) (cs_x cs + cx) (cs_y cs + cy) \<and>
      (HeapAlloc_ok ce \<and> parent (w_wnd ws) \<noteq> 0 \<and>
       fst (create_whole_window e (create_initial_state clamped ws)) \<noteq> 0 \<and>
       fst (create_client_window e
              (snd (create_whole_window e (create_initial_state clamped ws)))) \<noteq> 0 \<and>
       \<not> HOOK_IsHooked_CBT ce \<and> (\<forall>n. window_alive ce n) \<and>
       WM_NCCREATE_result ce \<noteq> 0 \<and> WM_CREATE_result ce \<noteq> - 1 \<longrightarrow> fst result)"
proof -
  let ?cx = "if 65535 <s cs_cx cs then 65535 else cs_cx cs"
  let ?cy = "if 65535 <s cs_cy cs then 65535 else cs_cy cs"
  let ?clamped = "cs\<lparr>cs_cx := ?cx, cs_cy := ?cy\<rparr>"
  let ?R = "X11DRV_window_to_X_rect e (w_wnd ws)
              (SetRect (cs_x cs) (cs_y cs) (cs_x cs + ?cx) (cs_y cs + ?cy))"
  let ?parent_win = "X11DRV_get_client_window e (parent (w_wnd ws))"
  let ?result = "X11DRV_CreateWindow e ce cs ws"
  have cl: "clamp_create_size cs = ?clamped"
    by (rule clamp_create_size_explicit)
  have size: "cs_cx (clamp_create_size cs) = ?cx" "cs_cy (clamp_create_size cs) = ?cy"
    by (simp_all add: cl)
  have no_heap: "\<not> HeapAlloc_ok ce \<longrightarrow> ?result = (False, ?clamped, ws)"
    by (simp add: X11DRV_CreateWindow_def Let_def cl)
  have first: "HeapAlloc_ok ce \<and> parent (w_wnd ws) \<noteq> 0 \<longrightarrow>
         (\<exists>mask attr.
            starts_with
              (w_log ws @
               [XCreateWindow ?parent_win (r_left ?R) (r_top ?R)
                  (nonzero_or_1 (r_right ?R - r_left ?R))
                  (nonzero_or_1 (r_bottom ?R - r_top ?R)) mask attr])
              (w_log (snd (snd ?result))))"
    using create_window_first_call [of ce ws ?R e cs] unfolding size by blast
  have plain: "dwExStyle (w_wnd ws) AND WS_EX_MANAGED = 0 \<Longrightarrow>
         ?R = SetRect (cs_x cs) (cs_y cs) (cs_x cs + ?cx) (cs_y cs + ?cy)"
    by (simp add: X11DRV_window_to_X_rect_def)
  have first_plain:
    "HeapAlloc_ok ce \<and> parent (w_wnd ws) \<noteq> 0 \<and> dwExStyle (w_wnd ws) AND WS_EX_MANAGED = 0 \<longrightarrow>
         (\<exists>mask attr.
            starts_with
              (w_log ws @
               [XCreateWindow ?parent_win (cs_x cs) (cs_y cs)
                  (nonzero_or_1 ?cx) (nonzero_or_1 ?cy) mask attr])
              (w_log (snd (snd ?result))))"
  proof (intro impI)
    assume a: "HeapAlloc_ok ce \<and> parent (w_wnd ws) \<noteq> 0 \<and> dwExStyle (w_wnd ws) AND WS_EX_MANAGED = 0"
    with first obtain mask attr where st:
      "starts_with
         (w_log ws @
          [XCreateWindow ?parent_win (r_left ?R) (r_top ?R)
             (nonzero_or_1 (r_right ?R - r_left ?R))
             (nonzero_or_1 (r_bottom ?R - r_top ?R)) mask attr])
         (w_log (snd (snd ?result)))"
      by blast
    from a have "?R = SetRect (cs_x cs) (cs_y cs) (cs_x cs + ?cx) (cs_y cs + ?cy)"
      using plain by blast
    from first_call_plain [OF st this]
    show "\<exists>mask attr.
            starts_with
              (w_log ws @
               [XCreateWindow ?parent_win (cs_x cs) (cs_y cs)
                  (nonzero_or_1 ?cx) (nonzero_or_1 ?cy) mask attr])
              (w_log (snd (snd ?result)))"
      by blast
  qed
  have returned: "fst (snd ?result) = ?clamped \<or> fst (snd ?result) = fit_minmax ce ?clamped"
    using returned_cs_create_window [of e ce cs ws] unfolding cl .
  have returned_plain:
    "cs_style cs AND WS_THICKFRAME = 0 \<and> cs_style cs AND (WS_POPUP OR WS_CHILD) \<noteq> 0 \<longrightarrow>
       fst (snd ?result) = ?clamped"
    using returned_cs_no_fitting [of cs e ce ws] unfolding cl by blast
  have in_range: "\<not> 65535 <s cs_cx cs \<and> \<not> 65535 <s cs_cy cs \<longrightarrow> ?clamped = cs"
    by simp
  have succeeds: "HeapAlloc_ok ce \<and> (\<forall>p x y w h. XCreateWindow_result e p x y w h \<noteq> 0) \<and>
       \<not> HOOK_IsHooked_CBT ce \<and> (\<forall>n. window_alive ce n) \<and>
       WM_NCCREATE_result ce \<noteq> 0 \<and> WM_CREATE_result ce \<noteq> - 1 \<longrightarrow> fst ?result"
    using create_window_succeeds_always [of ce e cs ws] by blast
  have same: "?result = X11DRV_CreateWindow e ce ?clamped ws"
    unfolding cl [symmetric] by (simp add: X11DRV_CreateWindow_def clamp_idem)
  have rect: "rectWindow (wnd (create_initial_state (clamp_create_size cs) ws))
        = SetRect (cs_x cs) (cs_y cs) (cs_x cs + ?cx) (cs_y cs + ?cy)"
    unfolding cl by (simp add: create_initial_state_def Let_def)
  have succeeds_peers: "HeapAlloc_ok ce \<and> parent (w_wnd ws) \<noteq> 0 \<and>
       fst (create_whole_window e (create_initial_state ?clamped ws)) \<noteq> 0 \<and>
       fst (create_client_window e
              (snd (create_whole_window e (create_initial_state ?clamped ws)))) \<noteq> 0 \<and>
       \<not> HOOK_IsHooked_CBT ce \<and> (\<forall>n. window_alive ce n) \<and>
       WM_NCCREATE_result ce \<noteq> 0 \<and> WM_CREATE_result ce \<noteq> - 1 \<longrightarrow> fst ?result"
    unfolding cl [symmetric] using create_window_succeeds [of ce ws e cs] by blast
  from no_heap first first_plain returned returned_plain in_range succeeds cl same rect
    succeeds_peers
  show ?thesis unfolding Let_def by blast
qed

text \<open>
  A request 70000 wide and 100 high for the window 2, child of the desktop (client window
  100): without memory the function returns \<open>FALSE\<close> and the width 65535; with memory its
  first call creates the whole window 65535 wide and 100 high at (10,10), and the creation
  succeeds. For the popup style, which is not fitted to \<open>WM_GETMINMAXINFO\<close>, the width
  handed back is 65535. The request 200 wide comes back as it is.
\<close>

theorem create_window_clamps_size_witness:
  "X11DRV_CreateWindow test_env (test_create_env\<lparr>HeapAlloc_ok := False\<rparr>)
       (dialog_request\<lparr>cs_cx := 70000\<rparr>) dialog_window
     = (False, dialog_request\<lparr>cs_cx := 65535\<rparr>, dialog_window) \<and>
   X11DRV_CreateWindow test_env (test_create_env\<lparr>HeapAlloc_ok := False\<rparr>)
       dialog_request dialog_window
     = (False, dialog_request, dialog_window) \<and>
   (\<exists>mask attr.
      starts_with [XCreateWindow 100 10 10 65535 100 mask attr]
        (w_log (snd (snd (X11DRV_CreateWindow test_env test_create_env
                            (dialog_request\<lparr>cs_cx := 70000\<rparr>) dialog_window))))) \<and>
   fst (X11DRV_CreateWindow test_env test_create_env (dialog_request\<lparr>cs_cx := 70000\<rparr>)
          dialog_window) \<and>
   fst (snd (X11DRV_CreateWindow test_env test_create_env
               (dialog_request\<lparr>cs_cx := 70000, cs_style := WS_POPUP\<rparr>) dialog_window))
     = dialog_request\<lparr>cs_cx := 65535, cs_style := WS_POPUP\<rparr> \<and>
   cs_cx (clamp_create_size (dialog_request\<lparr>cs_cx := 70000\<rparr>)) = 65535 \<and>
   cs_cy (clamp_create_size (dialog_request\<lparr>cs_cx := 70000\<rparr>)) = 100 \<and>
   X11DRV_CreateWindow test_env test_create_env (dialog_request\<lparr>cs_cx := 70000\<rparr>) dialog_window
     = X11DRV_CreateWindow test_env test_create_env (dialog_request\<lparr>cs_cx := 65535\<rparr>)
         dialog_window"
proof -
  let ?cs = "dialog_request\<lparr>cs_cx := 70000\<rparr>"
  let ?popup = "dialog_request\<lparr>cs_cx := 70000, cs_style := WS_POPUP\<rparr>"
  let ?no_heap = "test_create_env\<lparr>HeapAlloc_ok := False\<rparr>"
  have cx: "(if 65535 <s cs_cx ?cs then 65535 else cs_cx ?cs) = 65535"
    and cy: "(if 65535 <s cs_cy ?cs then 65535 else cs_cy ?cs) = 100"
    and xy: "cs_x ?cs = 10" "cs_y ?cs = 10"
    by (simp_all add: dialog_request_def word_sless_alt)
  have cx_popup: "(if 65535 <s cs_cx ?popup then 65535 else cs_cx ?popup) = 65535"
    and cy_popup: "(if 65535 <s cs_cy ?popup then 65535 else cs_cy ?popup) = 100"
    by (simp_all add: dialog_request_def word_sless_alt)
  have cx_small: "(if 65535 <s cs_cx dialog_request then 65535 else cs_cx dialog_request) = 200"
    and cy_small: "(if 65535 <s cs_cy dialog_request then 65535 else cs_cy dialog_request) = 100"
    and in_range: "\<not> 65535 <s cs_cx dialog_request \<and> \<not> 65535 <s cs_cy dialog_request"
    by (simp_all add: dialog_request_def word_sless_alt)
  have clamped: "?cs\<lparr>cs_cx := 65535, cs_cy := 100\<rparr> = dialog_request\<lparr>cs_cx := 65535\<rparr>"
    and clamped_popup: "?popup\<lparr>cs_cx := 65535, cs_cy := 100\<rparr>
                          = dialog_request\<lparr>cs_cx := 65535, cs_style := WS_POPUP\<rparr>"
    and clamped_small: "dialog_request\<lparr>cs_cx := 200, cs_cy := 100\<rparr> = dialog_request"
    by (simp_all add: dialog_request_def)
  have no_heap: "\<not> HeapAlloc_ok ?no_heap"
    by simp
  have heap: "HeapAlloc_ok test_create_env"
    and no_veto: "\<not> HOOK_IsHooked_CBT test_create_env \<and> (\<forall>n. window_alive test_create_env n) \<and>
                  WM_NCCREATE_result test_create_env \<noteq> 0 \<and> WM_CREATE_result test_create_env \<noteq> - 1"
    by (simp_all add: test_create_env_def)
  have par: "parent (w_wnd dialog_window) \<noteq> 0"
    and plain: "dwExStyle (w_wnd dialog_window) AND WS_EX_MANAGED = 0"
    and log: "w_log dialog_window = []"
    by (simp_all add: dialog_window_def test_wnd_def)
  have parent_win: "X11DRV_get_client_window test_env (parent (w_wnd dialog_window)) = 100"
    by (simp add: X11DRV_get_client_window_def test_env_def dialog_window_def test_wnd_def
          desktop_data_def)
  have size: "nonzero_or_1 (65535 :: LONG) = 65535" "nonzero_or_1 (100 :: LONG) = 100"
    by (simp_all add: nonzero_or_1_def)
  have server: "\<forall>p x y w h. XCreateWindow_result test_env p x y w h \<noteq> 0"
    by (simp add: test_env_def)
  have popup: "cs_style ?popup AND WS_THICKFRAME = 0 \<and>
               cs_style ?popup AND (WS_POPUP OR WS_CHILD) \<noteq> 0"
    by (simp add: WS_POPUP_def WS_THICKFRAME_def WS_CHILD_def)
  have whole: "fst (create_whole_window test_env s) \<noteq> 0" for s
    unfolding fst_create_whole_window_any using server by blast
  have client: "fst (create_client_window test_env s) \<noteq> 0" for s
    using server by (simp add: create_client_window_def Let_def)
  note failed = create_window_clamps_size
    [where cs = ?cs and e = test_env and ce = ?no_heap and ws = dialog_window,
     unfolded Let_def cx cy clamped]
  note failed_small = create_window_clamps_size
    [where cs = dialog_request and e = test_env and ce = ?no_heap and ws = dialog_window,
     unfolded Let_def cx_small cy_small clamped_small]
  note created = create_window_clamps_size
    [where cs = ?cs and e = test_env and ce = test_create_env and ws = dialog_window,
     unfolded Let_def cx cy xy clamped parent_win log size append_Nil]
  note handed_back = create_window_clamps_size
    [where cs = ?popup and e = test_env and ce = test_create_env and ws = dialog_window,
     unfolded Let_def cx_popup cy_popup clamped_popup]
  have r1: "X11DRV_CreateWindow test_env ?no_heap ?cs dialog_window
              = (False, dialog_request\<lparr>cs_cx := 65535\<rparr>, dialog_window)"
    using failed no_heap by blast
  have r2: "X11DRV_CreateWindow test_env ?no_heap dialog_request dialog_window
              = (False, dialog_request, dialog_window)"
    using failed_small no_heap in_range by blast
  have r3: "\<exists>mask attr.
      starts_with [XCreateWindow 100 10 10 65535 100 mask attr]
        (w_log (snd (snd (X11DRV_CreateWindow test_env test_create_env ?cs dialog_window))))"
    using created heap par plain by blast
  have r4: "fst (X11DRV_CreateWindow test_env test_create_env ?cs dialog_window)"
    using created heap server no_veto by blast
  have r4': "fst (X11DRV_CreateWindow test_env test_create_env ?cs dialog_window)"
    using created heap par whole client no_veto by blast
  have r5: "fst (snd (X11DRV_CreateWindow test_env test_create_env ?popup dialog_window))
              = dialog_request\<lparr>cs_cx := 65535, cs_style := WS_POPUP\<rparr>"
    using handed_back popup by blast
  have r6: "clamp_create_size ?cs = dialog_request\<lparr>cs_cx := 65535\<rparr>"
    using created by blast
  have r7: "cs_cx (clamp_create_size ?cs) = 65535" "cs_cy (clamp_create_size ?cs) = 100"
    unfolding r6 by (simp_all add: dialog_request_def)
  have r8: "X11DRV_CreateWindow test_env test_create_env ?cs dialog_window
              = X11DRV_CreateWindow test_env test_create_env (dialog_request\<lparr>cs_cx := 65535\<rparr>)
                  dialog_window"
    using created by blast
  from r1 r2 r3 r4 r4' r5 r7 r8 show ?thesis by blast
qed

end
